theory Spec2Isabelle
  imports Complex_Main
begin

section \<open>Learning Pulse: data model (learning\_pulse/models.py)\<close>

text \<open>
  Python \<open>int\<close> is modelled as \<^typ>\<open>int\<close> and Python \<open>float\<close> as \<^typ>\<open>real\<close>:
  every comparison, division, \<open>min\<close> and \<open>max\<close> of the source is read over the
  reals, so rounding of IEEE doubles is outside the model. Exceptions are values of
  \<open>py_error\<close>; a function that can raise returns \<open>py_error + 'a\<close>.
\<close>

datatype py_error = ValidationError | ValueError | RuntimeError

datatype EngagementTrend = INCREASING | STABLE | DECLINING

datatype LearningPersona =
    SKIMMER | STRUGGLER | ANXIOUS | BURNOUT | MASTER
  | PROCRASTINATOR | DEEP_DIVER | SOCIAL_LEARNER | PERFECTIONIST | LOST

record ChatBehavior =
  total_messages :: int
  user_messages :: int
  assistant_messages :: int
  question_count :: int
  avg_message_length :: real
  thumbs_up_count :: int
  thumbs_down_count :: int
  unique_sessions :: int
  total_session_duration_minutes :: real

record MaterialInteraction =
  total_time_spent_seconds :: int
  total_views :: int
  unique_materials_viewed :: int
  bookmark_count :: int
  avg_scroll_depth :: real

record ActivityPattern =
  active_days :: int
  total_sessions :: int
  peak_hour :: int
  late_night_sessions :: int
  weekend_sessions :: int
  total_weekday_sessions :: int
  daily_activity_variance :: real

record QuizPerformance =
  quiz_attempts :: int
  avg_score :: real
  completion_rate :: real

record BehaviorData =
  user_id :: string
  analysis_period_days :: int
  chat :: ChatBehavior
  material :: MaterialInteraction
  activity :: ActivityPattern
  quiz :: "QuizPerformance option"

text \<open>The field constraints (\<open>ge\<close>, \<open>le\<close>) that pydantic enforces on the input models.\<close>

definition valid_ChatBehavior :: "ChatBehavior \<Rightarrow> bool" where
  "valid_ChatBehavior c \<longleftrightarrow>
     0 \<le> total_messages c \<and> 0 \<le> user_messages c \<and> 0 \<le> assistant_messages c \<and>
     0 \<le> question_count c \<and> 0 \<le> avg_message_length c \<and> 0 \<le> thumbs_up_count c \<and>
     0 \<le> thumbs_down_count c \<and> 0 \<le> unique_sessions c \<and>
     0 \<le> total_session_duration_minutes c"

definition valid_MaterialInteraction :: "MaterialInteraction \<Rightarrow> bool" where
  "valid_MaterialInteraction m \<longleftrightarrow>
     0 \<le> total_time_spent_seconds m \<and> 0 \<le> total_views m \<and>
     0 \<le> unique_materials_viewed m \<and> 0 \<le> bookmark_count m \<and>
     0 \<le> avg_scroll_depth m \<and> avg_scroll_depth m \<le> 1"

definition valid_ActivityPattern :: "ActivityPattern \<Rightarrow> bool" where
  "valid_ActivityPattern a \<longleftrightarrow>
     0 \<le> active_days a \<and> 0 \<le> total_sessions a \<and> 0 \<le> peak_hour a \<and> peak_hour a \<le> 23 \<and>
     0 \<le> late_night_sessions a \<and> 0 \<le> weekend_sessions a \<and>
     0 \<le> total_weekday_sessions a \<and> 0 \<le> daily_activity_variance a"

definition valid_QuizPerformance :: "QuizPerformance \<Rightarrow> bool" where
  "valid_QuizPerformance q \<longleftrightarrow>
     0 \<le> quiz_attempts q \<and> 0 \<le> avg_score q \<and> avg_score q \<le> 100 \<and>
     0 \<le> completion_rate q \<and> completion_rate q \<le> 1"

definition valid_BehaviorData :: "BehaviorData \<Rightarrow> bool" where
  "valid_BehaviorData d \<longleftrightarrow>
     1 \<le> analysis_period_days d \<and> valid_ChatBehavior (chat d) \<and>
     valid_MaterialInteraction (material d) \<and> valid_ActivityPattern (activity d) \<and>
     (case quiz d of None \<Rightarrow> True | Some q \<Rightarrow> valid_QuizPerformance q)"

record FeatureVector =
  chat_message_ratio :: real
  question_frequency :: real
  avg_message_length_norm :: real
  feedback_ratio :: real
  feedback_engagement :: real
  session_count_norm :: real
  messages_per_session :: real
  session_duration_norm :: real
  time_spent_norm :: real
  view_count_norm :: real
  material_diversity :: real
  avg_time_per_view_norm :: real
  bookmark_ratio :: real
  scroll_depth :: real
  material_engagement_score :: real
  active_days_ratio :: real
  session_frequency :: real
  consistency_score :: real
  late_night_ratio :: real
  weekend_ratio :: real
  peak_hour_norm :: real
  engagement_trend_encoded :: real
  quiz_score_norm :: real
  quiz_completion_norm :: real
  quiz_attempt_frequency :: real

definition unit_interval :: "real \<Rightarrow> bool" where
  "unit_interval x \<longleftrightarrow> 0 \<le> x \<and> x \<le> 1"

text \<open>The 25 constraints \<open>Field(ge=0.0, le=1.0)\<close> of \<open>FeatureVector\<close>.\<close>

definition FeatureVector_fields_ok :: "FeatureVector \<Rightarrow> bool" where
  "FeatureVector_fields_ok v \<longleftrightarrow>
     unit_interval (chat_message_ratio v) \<and> unit_interval (question_frequency v) \<and>
     unit_interval (avg_message_length_norm v) \<and> unit_interval (feedback_ratio v) \<and>
     unit_interval (feedback_engagement v) \<and> unit_interval (session_count_norm v) \<and>
     unit_interval (messages_per_session v) \<and> unit_interval (session_duration_norm v) \<and>
     unit_interval (time_spent_norm v) \<and> unit_interval (view_count_norm v) \<and>
     unit_interval (material_diversity v) \<and> unit_interval (avg_time_per_view_norm v) \<and>
     unit_interval (bookmark_ratio v) \<and> unit_interval (scroll_depth v) \<and>
     unit_interval (material_engagement_score v) \<and> unit_interval (active_days_ratio v) \<and>
     unit_interval (session_frequency v) \<and> unit_interval (consistency_score v) \<and>
     unit_interval (late_night_ratio v) \<and> unit_interval (weekend_ratio v) \<and>
     unit_interval (peak_hour_norm v) \<and> unit_interval (engagement_trend_encoded v) \<and>
     unit_interval (quiz_score_norm v) \<and> unit_interval (quiz_completion_norm v) \<and>
     unit_interval (quiz_attempt_frequency v)"

text \<open>
  Constructing a \<open>FeatureVector\<close> runs the pydantic validation: a field outside
  \<open>[0, 1]\<close> raises \<open>ValidationError\<close>.
\<close>

definition FeatureVector_init :: "FeatureVector \<Rightarrow> py_error + FeatureVector" where
  "FeatureVector_init v = (if FeatureVector_fields_ok v then Inr v else Inl ValidationError)"

section \<open>Feature extractor (learning\_pulse/feature\_extractor.py)\<close>

definition MAX_MESSAGES :: real where "MAX_MESSAGES = 1000"
definition MAX_MESSAGE_LENGTH :: real where "MAX_MESSAGE_LENGTH = 500"
definition MAX_SESSIONS :: real where "MAX_SESSIONS = 100"
definition MAX_SESSION_DURATION :: real where "MAX_SESSION_DURATION = 600"
definition MAX_TIME_SPENT :: real where "MAX_TIME_SPENT = 36000"
definition MAX_VIEWS :: real where "MAX_VIEWS = 200"
definition MAX_SESSIONS_PER_DAY :: real where "MAX_SESSIONS_PER_DAY = 10"
definition MAX_QUIZ_ATTEMPTS :: real where "MAX_QUIZ_ATTEMPTS = 50"

definition safe_divide :: "real \<Rightarrow> real \<Rightarrow> real \<Rightarrow> real" where
  "safe_divide numerator denominator default_value =
     (if denominator = 0 then default_value else numerator / denominator)"

definition normalize :: "real \<Rightarrow> real \<Rightarrow> real" where
  "normalize v max_value =
     (if max_value \<le> 0 then 0 else min 1 (max 0 (v / max_value)))"

text \<open>The dictionaries returned by the four category extractors.\<close>

record chat_features =
  cf_chat_message_ratio :: real
  cf_question_frequency :: real
  cf_avg_message_length_norm :: real
  cf_feedback_ratio :: real
  cf_feedback_engagement :: real
  cf_session_count_norm :: real
  cf_messages_per_session :: real
  cf_session_duration_norm :: real

record material_features =
  mf_time_spent_norm :: real
  mf_view_count_norm :: real
  mf_material_diversity :: real
  mf_avg_time_per_view_norm :: real
  mf_bookmark_ratio :: real
  mf_scroll_depth :: real
  mf_material_engagement_score :: real

record activity_features =
  af_active_days_ratio :: real
  af_session_frequency :: real
  af_consistency_score :: real
  af_late_night_ratio :: real
  af_weekend_ratio :: real
  af_peak_hour_norm :: real
  af_engagement_trend_encoded :: real

record quiz_features =
  qf_quiz_score_norm :: real
  qf_quiz_completion_norm :: real
  qf_quiz_attempt_frequency :: real

definition extract_chat_features :: "BehaviorData \<Rightarrow> chat_features" where
  "extract_chat_features d =
     (let c = chat d;
          chat_message_ratio0 = safe_divide (real_of_int (user_messages c))
                                  (real_of_int (total_messages c)) 0.5;
          question_frequency0 = safe_divide (real_of_int (question_count c))
                                  (real_of_int (user_messages c)) 0;
          question_frequency1 = min 1 question_frequency0;
          avg_message_length_norm0 = normalize (avg_message_length c) MAX_MESSAGE_LENGTH;
          total_feedback = thumbs_up_count c + thumbs_down_count c;
          feedback_ratio0 = safe_divide (real_of_int (thumbs_up_count c))
                              (real_of_int total_feedback) 0.5;
          feedback_engagement0 = safe_divide (real_of_int total_feedback)
                                   (real_of_int (total_messages c)) 0;
          feedback_engagement1 = min 1 feedback_engagement0;
          session_count_norm0 = normalize (real_of_int (unique_sessions c)) MAX_SESSIONS;
          raw_messages_per_session = safe_divide (real_of_int (total_messages c))
                                       (real_of_int (unique_sessions c)) 0;
          messages_per_session0 = normalize raw_messages_per_session 20;
          session_duration_norm0 =
            normalize (total_session_duration_minutes c) MAX_SESSION_DURATION
      in \<lparr> cf_chat_message_ratio = chat_message_ratio0,
           cf_question_frequency = question_frequency1,
           cf_avg_message_length_norm = avg_message_length_norm0,
           cf_feedback_ratio = feedback_ratio0,
           cf_feedback_engagement = feedback_engagement1,
           cf_session_count_norm = session_count_norm0,
           cf_messages_per_session = messages_per_session0,
           cf_session_duration_norm = session_duration_norm0 \<rparr>)"

definition extract_material_features :: "BehaviorData \<Rightarrow> material_features" where
  "extract_material_features d =
     (let m = material d;
          time_spent_norm0 = normalize (real_of_int (total_time_spent_seconds m)) MAX_TIME_SPENT;
          view_count_norm0 = normalize (real_of_int (total_views m)) MAX_VIEWS;
          material_diversity0 = safe_divide (real_of_int (unique_materials_viewed m))
                                  (real_of_int (total_views m)) 0;
          material_diversity1 = min 1 material_diversity0;
          avg_time_per_view = safe_divide (real_of_int (total_time_spent_seconds m))
                                (real_of_int (total_views m)) 0;
          avg_time_per_view_norm0 = normalize avg_time_per_view 600;
          bookmark_ratio0 = safe_divide (real_of_int (bookmark_count m))
                              (real_of_int (total_views m)) 0;
          bookmark_ratio1 = min 1 bookmark_ratio0;
          scroll_depth0 = avg_scroll_depth m;
          scroll_depth1 = max 0 (min 1 scroll_depth0);
          material_engagement_score0 =
            0.4 * time_spent_norm0 + 0.4 * scroll_depth1 + 0.2 * bookmark_ratio1;
          material_engagement_score1 = max 0 (min 1 material_engagement_score0)
      in \<lparr> mf_time_spent_norm = time_spent_norm0,
           mf_view_count_norm = view_count_norm0,
           mf_material_diversity = material_diversity1,
           mf_avg_time_per_view_norm = avg_time_per_view_norm0,
           mf_bookmark_ratio = bookmark_ratio1,
           mf_scroll_depth = scroll_depth1,
           mf_material_engagement_score = material_engagement_score1 \<rparr>)"

text \<open>
  \<open>_calculate_engagement_trend\<close>: the two counters are threaded through the four
  scoring steps as a pair \<open>(declining_score, increasing_score)\<close>.
\<close>

definition calculate_engagement_trend :: "BehaviorData \<Rightarrow> EngagementTrend" where
  "calculate_engagement_trend d =
     (let a = activity d in
      if total_sessions a = 0 then STABLE
      else
        let session_frequency0 = safe_divide (real_of_int (total_sessions a))
                                   (real_of_int (active_days a)) 0;
            active_days_ratio0 = safe_divide (real_of_int (active_days a))
                                   (real_of_int (analysis_period_days d)) 0;
            late_night_ratio0 = safe_divide (real_of_int (late_night_sessions a))
                                  (real_of_int (total_sessions a)) 0;
            s0 = (0::nat, 0::nat);
            s1 = (if daily_activity_variance a > 5 then (fst s0 + 1, snd s0)
                  else if daily_activity_variance a < 2 then (fst s0, snd s0 + 1)
                  else s0);
            s2 = (if active_days_ratio0 < 0.3 \<and> total_sessions a > 0 then (fst s1 + 1, snd s1)
                  else if active_days_ratio0 > 0.6 then (fst s1, snd s1 + 1)
                  else s1);
            s3 = (if session_frequency0 > 2 then (fst s2, snd s2 + 1)
                  else if session_frequency0 < 0.5 \<and> active_days a > 0 then (fst s2 + 1, snd s2)
                  else s2);
            s4 = (if late_night_ratio0 > 0.4 then (fst s3 + 1, snd s3) else s3);
            declining_score = fst s4;
            increasing_score = snd s4
        in if declining_score \<ge> 2 then DECLINING
           else if increasing_score \<ge> 2 then INCREASING
           else STABLE)"

definition extract_activity_features :: "BehaviorData \<Rightarrow> activity_features" where
  "extract_activity_features d =
     (let a = activity d;
          active_days_ratio0 = safe_divide (real_of_int (active_days a))
                                 (real_of_int (analysis_period_days d)) 0;
          active_days_ratio1 = min 1 active_days_ratio0;
          raw_session_frequency = safe_divide (real_of_int (total_sessions a))
                                    (real_of_int (active_days a)) 0;
          session_frequency0 = normalize raw_session_frequency MAX_SESSIONS_PER_DAY;
          MAX_VARIANCE = 10;
          normalized_variance = normalize (daily_activity_variance a) MAX_VARIANCE;
          consistency_score0 = 1 - normalized_variance;
          consistency_score1 = max 0 (min 1 consistency_score0);
          late_night_ratio0 = safe_divide (real_of_int (late_night_sessions a))
                                (real_of_int (total_sessions a)) 0;
          late_night_ratio1 = min 1 late_night_ratio0;
          weekend_ratio0 = safe_divide (real_of_int (weekend_sessions a))
                             (real_of_int (total_sessions a)) 0;
          weekend_ratio1 = min 1 weekend_ratio0;
          peak_hour_norm0 = (if peak_hour a \<le> 23 then real_of_int (peak_hour a) / 23 else 1);
          peak_hour_norm1 = max 0 (min 1 peak_hour_norm0);
          engagement_trend = calculate_engagement_trend d;
          engagement_trend_encoded0 =
            (if engagement_trend = DECLINING then 0
             else if engagement_trend = STABLE then 0.5
             else 1)
      in \<lparr> af_active_days_ratio = active_days_ratio1,
           af_session_frequency = session_frequency0,
           af_consistency_score = consistency_score1,
           af_late_night_ratio = late_night_ratio1,
           af_weekend_ratio = weekend_ratio1,
           af_peak_hour_norm = peak_hour_norm1,
           af_engagement_trend_encoded = engagement_trend_encoded0 \<rparr>)"

definition extract_quiz_features :: "BehaviorData \<Rightarrow> quiz_features" where
  "extract_quiz_features d =
     (case quiz d of
        None \<Rightarrow> \<lparr> qf_quiz_score_norm = 0.5, qf_quiz_completion_norm = 0.5,
                  qf_quiz_attempt_frequency = 0 \<rparr>
      | Some q \<Rightarrow>
          let quiz_score_norm0 =
                (if quiz_attempts q = 0 then 0.5
                 else max 0 (min 1 (avg_score q / 100)));
              quiz_completion_norm0 =
                (if quiz_attempts q = 0 then 0.5
                 else max 0 (min 1 (completion_rate q)));
              quiz_attempt_frequency0 =
                normalize (real_of_int (quiz_attempts q)) MAX_QUIZ_ATTEMPTS
          in \<lparr> qf_quiz_score_norm = quiz_score_norm0,
               qf_quiz_completion_norm = quiz_completion_norm0,
               qf_quiz_attempt_frequency = quiz_attempt_frequency0 \<rparr>)"

text \<open>
  \<open>FeatureExtractor.extract\<close> (the bare name is a command of the prover, hence the
  prefix): the four dictionaries are copied into the
  \<open>FeatureVector\<close> constructor, whose validation can raise.
\<close>

definition FeatureExtractor_extract :: "BehaviorData \<Rightarrow> py_error + FeatureVector" where
  "FeatureExtractor_extract d =
     (let chat_fs = extract_chat_features d;
          material_fs = extract_material_features d;
          activity_fs = extract_activity_features d;
          quiz_fs = extract_quiz_features d
      in FeatureVector_init
           \<lparr> chat_message_ratio = cf_chat_message_ratio chat_fs,
             question_frequency = cf_question_frequency chat_fs,
             avg_message_length_norm = cf_avg_message_length_norm chat_fs,
             feedback_ratio = cf_feedback_ratio chat_fs,
             feedback_engagement = cf_feedback_engagement chat_fs,
             session_count_norm = cf_session_count_norm chat_fs,
             messages_per_session = cf_messages_per_session chat_fs,
             session_duration_norm = cf_session_duration_norm chat_fs,
             time_spent_norm = mf_time_spent_norm material_fs,
             view_count_norm = mf_view_count_norm material_fs,
             material_diversity = mf_material_diversity material_fs,
             avg_time_per_view_norm = mf_avg_time_per_view_norm material_fs,
             bookmark_ratio = mf_bookmark_ratio material_fs,
             scroll_depth = mf_scroll_depth material_fs,
             material_engagement_score = mf_material_engagement_score material_fs,
             active_days_ratio = af_active_days_ratio activity_fs,
             session_frequency = af_session_frequency activity_fs,
             consistency_score = af_consistency_score activity_fs,
             late_night_ratio = af_late_night_ratio activity_fs,
             weekend_ratio = af_weekend_ratio activity_fs,
             peak_hour_norm = af_peak_hour_norm activity_fs,
             engagement_trend_encoded = af_engagement_trend_encoded activity_fs,
             quiz_score_norm = qf_quiz_score_norm quiz_fs,
             quiz_completion_norm = qf_quiz_completion_norm quiz_fs,
             quiz_attempt_frequency = qf_quiz_attempt_frequency quiz_fs \<rparr>)"

subsection \<open>Default inputs\<close>

text \<open>The values pydantic fills in for fields that a caller leaves out.\<close>

definition ChatBehavior_default :: ChatBehavior where
  "ChatBehavior_default =
     \<lparr> total_messages = 0, user_messages = 0, assistant_messages = 0, question_count = 0,
       avg_message_length = 0, thumbs_up_count = 0, thumbs_down_count = 0,
       unique_sessions = 0, total_session_duration_minutes = 0 \<rparr>"

definition MaterialInteraction_default :: MaterialInteraction where
  "MaterialInteraction_default =
     \<lparr> total_time_spent_seconds = 0, total_views = 0, unique_materials_viewed = 0,
       bookmark_count = 0, avg_scroll_depth = 0.5 \<rparr>"

definition ActivityPattern_default :: ActivityPattern where
  "ActivityPattern_default =
     \<lparr> active_days = 0, total_sessions = 0, peak_hour = 12, late_night_sessions = 0,
       weekend_sessions = 0, total_weekday_sessions = 0, daily_activity_variance = 0 \<rparr>"

definition BehaviorData_default :: "string \<Rightarrow> BehaviorData" where
  "BehaviorData_default uid =
     \<lparr> user_id = uid, analysis_period_days = 30, chat = ChatBehavior_default,
       material = MaterialInteraction_default, activity = ActivityPattern_default,
       quiz = None \<rparr>"

subsection \<open>The engagement trend heuristic as the specification words it\<close>

text \<open>
  A second definition, written from the prose of the specification and not from the
  code: both scores are plain counts of the listed conditions, taken over the ratios
  of the feature table (capped at 1), and the encoding is produced directly.
\<close>

definition count_true :: "bool list \<Rightarrow> nat" where
  "count_true bs = length (filter (\<lambda>b. b) bs)"

definition engagement_trend_spec :: "BehaviorData \<Rightarrow> real" where
  "engagement_trend_spec d =
     (let a = activity d;
          variance = daily_activity_variance a;
          active_days_ratio_s =
            (if analysis_period_days d = 0 then 0
             else min 1 (real_of_int (active_days a) / real_of_int (analysis_period_days d)));
          late_night_ratio_s =
            (if total_sessions a = 0 then 0
             else min 1 (real_of_int (late_night_sessions a) / real_of_int (total_sessions a)));
          sessions_per_active_day =
            (if active_days a = 0 then 0
             else real_of_int (total_sessions a) / real_of_int (active_days a));
          declining_score =
            count_true [variance > 5,
                        active_days_ratio_s < 0.3 \<and> total_sessions a > 0,
                        sessions_per_active_day < 0.5 \<and> active_days a > 0,
                        late_night_ratio_s > 0.4];
          increasing_score =
            count_true [variance < 2, active_days_ratio_s > 0.6, sessions_per_active_day > 2]
      in if total_sessions a = 0 then 0.5
         else if declining_score \<ge> 2 then 0
         else if increasing_score \<ge> 2 then 1
         else 0.5)"

section \<open>Classification and guardrail results (learning\_pulse/models.py)\<close>

text \<open>
  Fields that several models share by name carry a prefix here (\<open>cr_\<close>, \<open>gr_\<close>,
  \<open>pr_\<close>, \<open>req_\<close>, \<open>resp_\<close>), since record fields are global constants.
\<close>

record ClassificationResult =
  cr_persona :: LearningPersona
  cr_confidence :: real
  cr_probabilities :: "string \<rightharpoonup> real"
  cr_is_low_confidence :: bool

definition ClassificationResult_init :: "ClassificationResult \<Rightarrow> py_error + ClassificationResult" where
  "ClassificationResult_init c =
     (if unit_interval (cr_confidence c) then Inr c else Inl ValidationError)"

text \<open>
  The \<open>reason\<close> of an override and the entries of \<open>flag_reasons\<close> are f-strings in
  the source. They are kept as the template together with the values it embeds; how a
  float is rendered as text is not modelled.
\<close>

datatype override_reason =
    QuizScoreBelowThreshold real real
  | TimePerMaterialExceeds real int
  | MaterialsBelowMinimum int int

datatype flag_reason =
    HighLateNightActivity real
  | DecliningFromMaster

record GuardrailOverride =
  original_persona :: LearningPersona
  final_persona :: LearningPersona
  rule_triggered :: string
  reason :: override_reason

record GuardrailFlags =
  potential_anxious :: bool
  potential_burnout :: bool
  needs_attention :: bool
  flag_reasons :: "flag_reason list"

record GuardrailResult =
  gr_persona :: LearningPersona
  gr_confidence :: real
  was_overridden :: bool
  gr_override :: "GuardrailOverride option"
  gr_flags :: GuardrailFlags

definition GuardrailResult_init :: "GuardrailResult \<Rightarrow> py_error + GuardrailResult" where
  "GuardrailResult_init r =
     (if unit_interval (gr_confidence r) then Inr r else Inl ValidationError)"

section \<open>Logic guardrails (learning\_pulse/guardrails.py)\<close>

definition MASTER_MIN_QUIZ_SCORE :: real where "MASTER_MIN_QUIZ_SCORE = 50.0"
definition SKIMMER_MIN_TIME_PER_MATERIAL :: int where "SKIMMER_MIN_TIME_PER_MATERIAL = 300"
definition DEEP_DIVER_MIN_MATERIALS :: int where "DEEP_DIVER_MIN_MATERIALS = 3"
definition ANXIOUS_LATE_NIGHT_THRESHOLD :: real where "ANXIOUS_LATE_NIGHT_THRESHOLD = 0.5"
definition HIGH_SESSION_FREQUENCY_THRESHOLD :: real where "HIGH_SESSION_FREQUENCY_THRESHOLD = 3.0"

definition check_master_override ::
  "ClassificationResult \<Rightarrow> real option \<Rightarrow> GuardrailOverride option" where
  "check_master_override prediction quiz_score =
     (if cr_persona prediction \<noteq> MASTER then None
      else case quiz_score of
             None \<Rightarrow> None
           | Some q \<Rightarrow>
               if q < MASTER_MIN_QUIZ_SCORE
               then Some \<lparr> original_persona = MASTER, final_persona = STRUGGLER,
                           rule_triggered = ''master_low_quiz_score'',
                           reason = QuizScoreBelowThreshold q MASTER_MIN_QUIZ_SCORE \<rparr>
               else None)"

definition check_skimmer_reconsideration ::
  "ClassificationResult \<Rightarrow> real \<Rightarrow> GuardrailOverride option" where
  "check_skimmer_reconsideration prediction avg_time_per_material =
     (if cr_persona prediction \<noteq> SKIMMER then None
      else if avg_time_per_material > real_of_int SKIMMER_MIN_TIME_PER_MATERIAL
      then Some \<lparr> original_persona = SKIMMER, final_persona = DEEP_DIVER,
                  rule_triggered = ''skimmer_high_time_per_material'',
                  reason = TimePerMaterialExceeds avg_time_per_material
                             SKIMMER_MIN_TIME_PER_MATERIAL \<rparr>
      else None)"

definition check_deep_diver_override ::
  "ClassificationResult \<Rightarrow> int \<Rightarrow> GuardrailOverride option" where
  "check_deep_diver_override prediction total_materials_viewed =
     (if cr_persona prediction \<noteq> DEEP_DIVER then None
      else if total_materials_viewed < DEEP_DIVER_MIN_MATERIALS
      then Some \<lparr> original_persona = DEEP_DIVER, final_persona = LOST,
                  rule_triggered = ''deep_diver_low_material_count'',
                  reason = MaterialsBelowMinimum total_materials_viewed
                             DEEP_DIVER_MIN_MATERIALS \<rparr>
      else None)"

definition check_anxious_flags :: "FeatureVector \<Rightarrow> flag_reason list" where
  "check_anxious_flags features =
     (let flags = [] in
      if late_night_ratio features > ANXIOUS_LATE_NIGHT_THRESHOLD
      then (if session_frequency features > 0.3
            then flags @ [HighLateNightActivity (late_night_ratio features)]
            else flags)
      else flags)"

definition check_burnout_flags :: "FeatureVector \<Rightarrow> LearningPersona option \<Rightarrow> flag_reason list" where
  "check_burnout_flags features previous_persona =
     (let flags = [];
          is_declining = engagement_trend_encoded features < 0.25
      in if is_declining \<and> previous_persona = Some MASTER
         then flags @ [DecliningFromMaster]
         else flags)"

text \<open>
  \<open>LogicGuardrails.apply\<close> (the bare name is a command of the prover, hence the
  prefix). The local variables \<open>override\<close>, \<open>final_persona\<close> and
  \<open>was_overridden\<close> are reassigned in the source; each assignment is a new binding.
\<close>

definition LogicGuardrails_apply ::
  "ClassificationResult \<Rightarrow> FeatureVector \<Rightarrow> real option \<Rightarrow> LearningPersona option
     \<Rightarrow> int \<Rightarrow> real \<Rightarrow> py_error + GuardrailResult" where
  "LogicGuardrails_apply prediction features quiz_score previous_persona
       total_materials_viewed avg_time_per_material =
     (let override0 = None;
          final_persona0 = cr_persona prediction;
          was_overridden0 = False;
          override1 = (if override0 = None
                       then check_master_override prediction quiz_score else override0);
          override2 = (if override1 = None
                       then check_deep_diver_override prediction total_materials_viewed
                       else override1);
          override3 = (if override2 = None
                       then check_skimmer_reconsideration prediction avg_time_per_material
                       else override2);
          final_persona1 = (case override3 of None \<Rightarrow> final_persona0
                                            | Some ov \<Rightarrow> final_persona ov);
          was_overridden1 = (case override3 of None \<Rightarrow> was_overridden0 | Some ov \<Rightarrow> True);
          flag_reasons0 = [];
          anxious_flags = check_anxious_flags features;
          flag_reasons1 = flag_reasons0 @ anxious_flags;
          burnout_flags = check_burnout_flags features previous_persona;
          flag_reasons2 = flag_reasons1 @ burnout_flags;
          flags = \<lparr> potential_anxious = length anxious_flags > 0,
                    potential_burnout = length burnout_flags > 0,
                    needs_attention = (length flag_reasons2 > 0 \<or> was_overridden1),
                    flag_reasons = flag_reasons2 \<rparr>
      in GuardrailResult_init
           \<lparr> gr_persona = final_persona1,
             gr_confidence = cr_confidence prediction,
             was_overridden = was_overridden1,
             gr_override = override3,
             gr_flags = flags \<rparr>)"

section \<open>Persona classifier (learning\_pulse/persona\_classifier.py)\<close>

text \<open>
  \<open>LearningPersona\<close> is a \<open>str\<close>-valued enumeration: \<open>persona_value\<close> is the
  \<open>.value\<close> of a member, \<open>all_personas\<close> is \<open>list(LearningPersona)\<close> in declaration
  order, and \<open>LearningPersona_of_value\<close> is the call \<open>LearningPersona(s)\<close>, which
  raises \<open>ValueError\<close> when no member has the value \<open>s\<close>.
\<close>

fun persona_value :: "LearningPersona \<Rightarrow> string" where
  "persona_value SKIMMER = ''skimmer''"
| "persona_value STRUGGLER = ''struggler''"
| "persona_value ANXIOUS = ''anxious''"
| "persona_value BURNOUT = ''burnout''"
| "persona_value MASTER = ''master''"
| "persona_value PROCRASTINATOR = ''procrastinator''"
| "persona_value DEEP_DIVER = ''deep_diver''"
| "persona_value SOCIAL_LEARNER = ''social_learner''"
| "persona_value PERFECTIONIST = ''perfectionist''"
| "persona_value LOST = ''lost''"

definition all_personas :: "LearningPersona list" where
  "all_personas = [SKIMMER, STRUGGLER, ANXIOUS, BURNOUT, MASTER,
                   PROCRASTINATOR, DEEP_DIVER, SOCIAL_LEARNER, PERFECTIONIST, LOST]"

definition LearningPersona_of_value :: "string \<Rightarrow> py_error + LearningPersona" where
  "LearningPersona_of_value s =
     (case find (\<lambda>p. persona_value p = s) all_personas of
        None \<Rightarrow> Inl ValueError
      | Some p \<Rightarrow> Inr p)"

text \<open>
  The raw output of the model: a string label, or anything else, which the source turns
  into an index with \<open>int(predicted_class)\<close>.
\<close>

datatype predicted_class = ClassStr string | ClassInt int

text \<open>
  The trained model is external: it is a pair of functions from the (scaled) feature
  row to the predicted class and to the class probabilities.
\<close>

record sk_model =
  sk_predict :: "real list \<Rightarrow> predicted_class"
  sk_predict_proba :: "real list \<Rightarrow> real list"

record PersonaClassifier =
  model :: "sk_model option"
  scaler :: "(real list \<Rightarrow> real list) option"
  model_version :: string
  last_training_date :: string
  persona_names :: "string list"

definition LOW_CONFIDENCE_THRESHOLD :: real where "LOW_CONFIDENCE_THRESHOLD = 0.5"
definition EXPECTED_NUM_CLASSES :: nat where "EXPECTED_NUM_CLASSES = 10"

definition is_loaded :: "PersonaClassifier \<Rightarrow> bool" where
  "is_loaded clf \<longleftrightarrow> model clf \<noteq> None"

text \<open>
  \<open>_convert_to_persona\<close>. An entry of \<open>persona_names\<close> that is not a string is
  replaced by its \<open>str()\<close> in the source; the list is modelled after that coercion.
\<close>

definition convert_to_persona :: "PersonaClassifier \<Rightarrow> predicted_class \<Rightarrow> py_error + LearningPersona" where
  "convert_to_persona clf pc =
     (case pc of
        ClassStr s \<Rightarrow> LearningPersona_of_value s
      | ClassInt idx \<Rightarrow>
          if persona_names clf \<noteq> [] \<and> 0 \<le> idx \<and> idx < int (length (persona_names clf))
          then LearningPersona_of_value (persona_names clf ! nat idx)
          else
            let persona_values = all_personas in
            if 0 \<le> idx \<and> idx < int (length persona_values)
            then Inr (persona_values ! nat idx)
            else Inl ValueError)"

text \<open>
  \<open>_build_probability_dict\<close>: a dictionary comprehension over \<open>zip\<close>, where a later
  pair with the same name replaces an earlier one.
\<close>

definition build_probability_dict :: "PersonaClassifier \<Rightarrow> real list \<Rightarrow> (string \<rightharpoonup> real)" where
  "build_probability_dict clf probabilities =
     (if persona_names clf \<noteq> []
      then map_of (rev (zip (persona_names clf) probabilities))
      else let persona_values = map persona_value all_personas
           in map_of (rev (zip persona_values probabilities)))"

definition feature_vector_to_array :: "FeatureVector \<Rightarrow> real list" where
  "feature_vector_to_array features =
     [chat_message_ratio features, question_frequency features,
      avg_message_length_norm features, feedback_ratio features,
      feedback_engagement features, session_count_norm features,
      messages_per_session features, session_duration_norm features,
      time_spent_norm features, view_count_norm features, material_diversity features,
      avg_time_per_view_norm features, bookmark_ratio features, scroll_depth features,
      material_engagement_score features,
      active_days_ratio features, session_frequency features, consistency_score features,
      late_night_ratio features, weekend_ratio features, peak_hour_norm features,
      engagement_trend_encoded features,
      quiz_score_norm features, quiz_completion_norm features,
      quiz_attempt_frequency features]"

text \<open>
  \<open>PersonaClassifier.predict\<close>. \<open>max\<close> of an empty probability row raises
  \<open>ValueError\<close>; the row and the class come from the external model.
\<close>

definition predict :: "PersonaClassifier \<Rightarrow> FeatureVector \<Rightarrow> py_error + ClassificationResult" where
  "predict clf features =
     (case model clf of
        None \<Rightarrow> Inl RuntimeError
      | Some m \<Rightarrow>
          let feature_array0 = feature_vector_to_array features;
              feature_array1 = (case scaler clf of None \<Rightarrow> feature_array0
                                                 | Some sc \<Rightarrow> sc feature_array0);
              predicted = sk_predict m feature_array1;
              probabilities = sk_predict_proba m feature_array1;
              prob_dict = build_probability_dict clf probabilities
          in if probabilities = [] then Inl ValueError
             else
               let confidence = fold max (tl probabilities) (hd probabilities) in
               case convert_to_persona clf predicted of
                 Inl e \<Rightarrow> Inl e
               | Inr persona \<Rightarrow>
                   let low = (confidence < LOW_CONFIDENCE_THRESHOLD)
                   in ClassificationResult_init
                        \<lparr> cr_persona = persona, cr_confidence = confidence,
                          cr_probabilities = prob_dict, cr_is_low_confidence = low \<rparr>)"

section \<open>Recommendation engine (learning\_pulse/recommendations.py)\<close>

text \<open>
  The \<open>summary\<close> of a bundle and the \<open>description\<close> of a recommendation are display
  prose and are left out; every other field is kept.
\<close>

record Recommendation =
  rec_id :: string
  title :: string
  action_type :: string
  priority :: int

record PersonaRecommendations =
  pr_persona :: LearningPersona
  recommendations :: "Recommendation list"
  ui_hints :: "(string \<times> string) list"

definition get_struggler_recommendations :: PersonaRecommendations where
  "get_struggler_recommendations =
     \<lparr> pr_persona = STRUGGLER,
       recommendations =
        [
         \<lparr> rec_id = ''struggler_simplified_materials'',
           title = ''Access Simplified Materials'',
           action_type = ''content'', priority = 1 \<rparr>,
         \<lparr> rec_id = ''struggler_more_examples'',
           title = ''Explore More Examples'',
           action_type = ''content'', priority = 2 \<rparr>,
         \<lparr> rec_id = ''struggler_llm_explanations'',
           title = ''Ask AI for Explanations'',
           action_type = ''feature'', priority = 3 \<rparr>,
         \<lparr> rec_id = ''struggler_review_basics'',
           title = ''Review Foundational Concepts'',
           action_type = ''content'', priority = 4 \<rparr>
        ],
       ui_hints =
         [(''highlight_ai_chat'', ''true''),
          (''show_difficulty_filter'', ''true''),
          (''suggest_prerequisites'', ''true'')] \<rparr>"

definition get_skimmer_recommendations :: PersonaRecommendations where
  "get_skimmer_recommendations =
     \<lparr> pr_persona = SKIMMER,
       recommendations =
        [
         \<lparr> rec_id = ''skimmer_engagement_prompts'',
           title = ''Try Interactive Checkpoints'',
           action_type = ''ui'', priority = 1 \<rparr>,
         \<lparr> rec_id = ''skimmer_quizzes'',
           title = ''Take Quick Quizzes'',
           action_type = ''feature'', priority = 2 \<rparr>,
         \<lparr> rec_id = ''skimmer_summary_highlights'',
           title = ''Review Key Highlights'',
           action_type = ''content'', priority = 3 \<rparr>,
         \<lparr> rec_id = ''skimmer_slow_down_reminder'',
           title = ''Pace Yourself'',
           action_type = ''notification'', priority = 4 \<rparr>
        ],
       ui_hints =
         [(''show_reading_progress'', ''true''),
          (''enable_comprehension_checks'', ''true''),
          (''highlight_key_points'', ''true'')] \<rparr>"

definition get_anxious_recommendations :: PersonaRecommendations where
  "get_anxious_recommendations =
     \<lparr> pr_persona = ANXIOUS,
       recommendations =
        [
         \<lparr> rec_id = ''anxious_calming_ui'',
           title = ''Enable Calm Mode'',
           action_type = ''ui'', priority = 1 \<rparr>,
         \<lparr> rec_id = ''anxious_progress_indicators'',
           title = ''Track Your Progress'',
           action_type = ''ui'', priority = 2 \<rparr>,
         \<lparr> rec_id = ''anxious_encouragement'',
           title = ''You're Doing Great!'',
           action_type = ''notification'', priority = 3 \<rparr>,
         \<lparr> rec_id = ''anxious_breathing_break'',
           title = ''Take a Mindful Break'',
           action_type = ''feature'', priority = 4 \<rparr>
        ],
       ui_hints =
         [(''enable_calm_mode'', ''true''),
          (''show_encouragement_messages'', ''true''),
          (''reduce_notifications'', ''true''),
          (''soft_color_scheme'', ''true'')] \<rparr>"

definition get_burnout_recommendations :: PersonaRecommendations where
  "get_burnout_recommendations =
     \<lparr> pr_persona = BURNOUT,
       recommendations =
        [
         \<lparr> rec_id = ''burnout_break_reminder'',
           title = ''Take Regular Breaks'',
           action_type = ''notification'', priority = 1 \<rparr>,
         \<lparr> rec_id = ''burnout_lighter_content'',
           title = ''Try Lighter Content'',
           action_type = ''content'', priority = 2 \<rparr>,
         \<lparr> rec_id = ''burnout_celebrate_achievements'',
           title = ''Celebrate Your Progress'',
           action_type = ''ui'', priority = 3 \<rparr>,
         \<lparr> rec_id = ''burnout_reduce_workload'',
           title = ''Set Realistic Goals'',
           action_type = ''feature'', priority = 4 \<rparr>
        ],
       ui_hints =
         [(''enable_break_reminders'', ''true''),
          (''show_achievements'', ''true''),
          (''suggest_lighter_content'', ''true''),
          (''reduce_daily_goals'', ''true'')] \<rparr>"

definition get_master_recommendations :: PersonaRecommendations where
  "get_master_recommendations =
     \<lparr> pr_persona = MASTER,
       recommendations =
        [
         \<lparr> rec_id = ''master_advanced_materials'',
           title = ''Explore Advanced Content'',
           action_type = ''content'', priority = 1 \<rparr>,
         \<lparr> rec_id = ''master_peer_tutoring'',
           title = ''Help Fellow Learners'',
           action_type = ''feature'', priority = 2 \<rparr>,
         \<lparr> rec_id = ''master_challenge_content'',
           title = ''Take on Challenges'',
           action_type = ''content'', priority = 3 \<rparr>,
         \<lparr> rec_id = ''master_explore_related'',
           title = ''Explore Related Topics'',
           action_type = ''content'', priority = 4 \<rparr>
        ],
       ui_hints =
         [(''show_advanced_filter'', ''true''),
          (''highlight_challenges'', ''true''),
          (''enable_tutoring_badge'', ''true'')] \<rparr>"

definition get_procrastinator_recommendations :: PersonaRecommendations where
  "get_procrastinator_recommendations =
     \<lparr> pr_persona = PROCRASTINATOR,
       recommendations =
        [
         \<lparr> rec_id = ''procrastinator_deadline_reminders'',
           title = ''Set Up Deadline Alerts'',
           action_type = ''notification'', priority = 1 \<rparr>,
         \<lparr> rec_id = ''procrastinator_micro_tasks'',
           title = ''Break It Into Micro-Tasks'',
           action_type = ''feature'', priority = 2 \<rparr>,
         \<lparr> rec_id = ''procrastinator_progress_tracking'',
           title = ''Track Daily Progress'',
           action_type = ''ui'', priority = 3 \<rparr>,
         \<lparr> rec_id = ''procrastinator_schedule_sessions'',
           title = ''Schedule Study Sessions'',
           action_type = ''feature'', priority = 4 \<rparr>
        ],
       ui_hints =
         [(''show_deadline_countdown'', ''true''),
          (''enable_streak_tracker'', ''true''),
          (''show_micro_tasks'', ''true''),
          (''calendar_integration'', ''true'')] \<rparr>"

definition get_deep_diver_recommendations :: PersonaRecommendations where
  "get_deep_diver_recommendations =
     \<lparr> pr_persona = DEEP_DIVER,
       recommendations =
        [
         \<lparr> rec_id = ''deep_diver_supplementary_resources'',
           title = ''Access Supplementary Resources'',
           action_type = ''content'', priority = 1 \<rparr>,
         \<lparr> rec_id = ''deep_diver_deep_content'',
           title = ''Unlock Deep-Dive Content'',
           action_type = ''content'', priority = 2 \<rparr>,
         \<lparr> rec_id = ''deep_diver_research_opportunities'',
           title = ''Join Research Projects'',
           action_type = ''feature'', priority = 3 \<rparr>,
         \<lparr> rec_id = ''deep_diver_expert_connections'',
           title = ''Connect with Experts'',
           action_type = ''feature'', priority = 4 \<rparr>
        ],
       ui_hints =
         [(''show_related_resources'', ''true''),
          (''enable_research_mode'', ''true''),
          (''show_citation_links'', ''true'')] \<rparr>"

definition get_social_learner_recommendations :: PersonaRecommendations where
  "get_social_learner_recommendations =
     \<lparr> pr_persona = SOCIAL_LEARNER,
       recommendations =
        [
         \<lparr> rec_id = ''social_learner_study_groups'',
           title = ''Join Study Groups'',
           action_type = ''feature'', priority = 1 \<rparr>,
         \<lparr> rec_id = ''social_learner_discussion_forums'',
           title = ''Participate in Discussions'',
           action_type = ''feature'', priority = 2 \<rparr>,
         \<lparr> rec_id = ''social_learner_collaborative_activities'',
           title = ''Try Collaborative Projects'',
           action_type = ''feature'', priority = 3 \<rparr>,
         \<lparr> rec_id = ''social_learner_peer_review'',
           title = ''Exchange Peer Feedback'',
           action_type = ''feature'', priority = 4 \<rparr>
        ],
       ui_hints =
         [(''show_active_groups'', ''true''),
          (''enable_chat_features'', ''true''),
          (''highlight_collaborative_pods'', ''true'')] \<rparr>"

definition get_perfectionist_recommendations :: PersonaRecommendations where
  "get_perfectionist_recommendations =
     \<lparr> pr_persona = PERFECTIONIST,
       recommendations =
        [
         \<lparr> rec_id = ''perfectionist_time_boxing'',
           title = ''Try Time-Boxing'',
           action_type = ''feature'', priority = 1 \<rparr>,
         \<lparr> rec_id = ''perfectionist_good_enough'',
           title = (''Embrace 'Good Enough'' @ [CHR 0x27]),
           action_type = ''notification'', priority = 2 \<rparr>,
         \<lparr> rec_id = ''perfectionist_celebrate_progress'',
           title = ''Celebrate Your Progress'',
           action_type = ''ui'', priority = 3 \<rparr>,
         \<lparr> rec_id = ''perfectionist_limit_reviews'',
           title = ''Limit Review Cycles'',
           action_type = ''feature'', priority = 4 \<rparr>
        ],
       ui_hints =
         [(''show_time_tracker'', ''true''),
          (''enable_progress_milestones'', ''true''),
          (''limit_review_prompts'', ''true'')] \<rparr>"

definition get_lost_recommendations :: PersonaRecommendations where
  "get_lost_recommendations =
     \<lparr> pr_persona = LOST,
       recommendations =
        [
         \<lparr> rec_id = ''lost_guided_paths'',
           title = ''Follow a Guided Learning Path'',
           action_type = ''content'', priority = 1 \<rparr>,
         \<lparr> rec_id = ''lost_mentor_matching'',
           title = ''Get Matched with a Mentor'',
           action_type = ''feature'', priority = 2 \<rparr>,
         \<lparr> rec_id = ''lost_foundational_materials'',
           title = ''Start with Foundations'',
           action_type = ''content'', priority = 3 \<rparr>,
         \<lparr> rec_id = ''lost_goal_setting'',
           title = ''Set Clear Learning Goals'',
           action_type = ''feature'', priority = 4 \<rparr>
        ],
       ui_hints =
         [(''show_learning_path'', ''true''),
          (''enable_mentor_chat'', ''true''),
          (''highlight_prerequisites'', ''true''),
          (''show_goal_tracker'', ''true'')] \<rparr>"

text \<open>
  The dictionary built by \<open>__init__\<close>. A member of the \<open>str\<close>-valued enumeration
  hashes and compares as its value, so the keys are the ten value strings; a lookup key
  that is no persona is any other string.
\<close>

definition persona_recommendations_items :: "(string \<times> PersonaRecommendations) list" where
  "persona_recommendations_items =
     [(persona_value STRUGGLER, get_struggler_recommendations),
      (persona_value SKIMMER, get_skimmer_recommendations),
      (persona_value ANXIOUS, get_anxious_recommendations),
      (persona_value BURNOUT, get_burnout_recommendations),
      (persona_value MASTER, get_master_recommendations),
      (persona_value PROCRASTINATOR, get_procrastinator_recommendations),
      (persona_value DEEP_DIVER, get_deep_diver_recommendations),
      (persona_value SOCIAL_LEARNER, get_social_learner_recommendations),
      (persona_value PERFECTIONIST, get_perfectionist_recommendations),
      (persona_value LOST, get_lost_recommendations)]"

definition persona_recommendations :: "string \<rightharpoonup> PersonaRecommendations" where
  "persona_recommendations = map_of persona_recommendations_items"

definition get_recommendations :: "string \<Rightarrow> py_error + PersonaRecommendations" where
  "get_recommendations persona =
     (case persona_recommendations persona of
        None \<Rightarrow> Inl ValueError
      | Some rs \<Rightarrow> Inr rs)"

section \<open>Prediction endpoint (learning\_pulse/router.py)\<close>

record PredictRequest =
  req_user_id :: string
  behavior_data :: BehaviorData
  req_quiz_score :: "real option"
  req_previous_persona :: "string option"

record FeatureSummary =
  chat_engagement :: string
  material_consumption :: string
  activity_consistency :: string
  key_indicators :: "string list"

text \<open>\<open>processing_time_ms\<close> is a clock reading and is not part of the model.\<close>

record PredictResponse =
  resp_user_id :: string
  resp_persona :: string
  resp_confidence :: real
  resp_is_low_confidence :: bool
  resp_recommendations :: "Recommendation list"
  feature_summary :: FeatureSummary
  override_info :: "GuardrailOverride option"
  resp_flags :: "flag_reason list"

definition PredictResponse_init :: "PredictResponse \<Rightarrow> py_error + PredictResponse" where
  "PredictResponse_init r =
     (if unit_interval (resp_confidence r) then Inr r else Inl ValidationError)"

datatype http_error = ServiceUnavailable503 | InternalServerError500 py_error

text \<open>The module globals set by \<open>initialize_components\<close>.\<close>

record components =
  initialized :: bool
  persona_classifier :: "PersonaClassifier option"

definition generate_feature_summary :: "FeatureVector \<Rightarrow> FeatureSummary" where
  "generate_feature_summary features =
     (let chat_score = chat_message_ratio features * 0.3 + messages_per_session features * 0.3
                       + session_count_norm features * 0.2 + feedback_engagement features * 0.2;
          chat_engagement0 = (if chat_score < 0.33 then ''low''
                              else if chat_score < 0.66 then ''medium'' else ''high'');
          material_score = time_spent_norm features * 0.3 + view_count_norm features * 0.2
                           + scroll_depth features * 0.3
                           + material_engagement_score features * 0.2;
          material_consumption0 = (if material_score < 0.33 then ''low''
                                   else if material_score < 0.66 then ''medium'' else ''high'');
          activity_consistency0 = (if consistency_score features < 0.33 then ''low''
                                   else if consistency_score features < 0.66 then ''medium''
                                   else ''high'');
          k0 = [];
          k1 = (if question_frequency features > 0.7
                then k0 @ [''High question frequency in chat''] else k0);
          k2 = (if late_night_ratio features > 0.5
                then k1 @ [''Significant late-night activity''] else k1);
          k3 = (if scroll_depth features > 0.8
                then k2 @ [''Thorough material reading''] else k2);
          k4 = (if scroll_depth features < 0.3
                then k3 @ [''Quick material scanning''] else k3);
          k5 = (if engagement_trend_encoded features < 0.25
                then k4 @ [''Declining engagement trend'']
                else if engagement_trend_encoded features > 0.75
                then k4 @ [''Increasing engagement trend''] else k4);
          k6 = (if bookmark_ratio features > 0.5
                then k5 @ [''Active bookmarking behavior''] else k5);
          k7 = (if quiz_score_norm features > 0.8
                then k6 @ [''Strong quiz performance'']
                else if quiz_score_norm features < 0.4 \<and> quiz_attempt_frequency features > 0.1
                then k6 @ [''Struggling with quizzes''] else k6);
          k8 = (if active_days_ratio features > 0.7
                then k7 @ [''Consistent daily activity'']
                else if active_days_ratio features < 0.2
                then k7 @ [''Sporadic activity pattern''] else k7)
      in \<lparr> chat_engagement = chat_engagement0,
           material_consumption = material_consumption0,
           activity_consistency = activity_consistency0,
           key_indicators = k8 \<rparr>)"

text \<open>
  The two auxiliary guardrail inputs computed by the endpoint, and the parsing of
  \<open>previous_persona\<close> (absent, empty or unrecognised gives \<open>None\<close>).
\<close>

definition endpoint_avg_time_per_material :: "MaterialInteraction \<Rightarrow> real" where
  "endpoint_avg_time_per_material m =
     (if total_views m > 0
      then real_of_int (total_time_spent_seconds m) / real_of_int (total_views m)
      else 0.0)"

definition parse_previous_persona :: "string option \<Rightarrow> LearningPersona option" where
  "parse_previous_persona s =
     (case s of
        None \<Rightarrow> None
      | Some t \<Rightarrow>
          if t = [] then None
          else case LearningPersona_of_value t of
                 Inl e \<Rightarrow> None
               | Inr p \<Rightarrow> Some p)"

text \<open>
  The body of the \<open>try\<close> block of \<open>predict_persona\<close>: any exception raised by a step
  aborts the remaining steps.
\<close>

definition predict_persona_steps ::
  "PersonaClassifier \<Rightarrow> PredictRequest \<Rightarrow> py_error + PredictResponse" where
  "predict_persona_steps clf request =
     (case FeatureExtractor_extract (behavior_data request) of
        Inl e \<Rightarrow> Inl e
      | Inr features \<Rightarrow>
     (case predict clf features of
        Inl e \<Rightarrow> Inl e
      | Inr classification \<Rightarrow>
          let m = material (behavior_data request);
              avg_time_per_material = endpoint_avg_time_per_material m;
              previous_persona = parse_previous_persona (req_previous_persona request)
          in
     (case LogicGuardrails_apply classification features (req_quiz_score request)
             previous_persona (unique_materials_viewed m) avg_time_per_material of
        Inl e \<Rightarrow> Inl e
      | Inr guardrail_result \<Rightarrow>
     (case get_recommendations (persona_value (gr_persona guardrail_result)) of
        Inl e \<Rightarrow> Inl e
      | Inr persona_recs \<Rightarrow>
          let summary = generate_feature_summary features
          in PredictResponse_init
               \<lparr> resp_user_id = req_user_id request,
                 resp_persona = persona_value (gr_persona guardrail_result),
                 resp_confidence = gr_confidence guardrail_result,
                 resp_is_low_confidence = cr_is_low_confidence classification,
                 resp_recommendations = recommendations persona_recs,
                 feature_summary = summary,
                 override_info = gr_override guardrail_result,
                 resp_flags = flag_reasons (gr_flags guardrail_result) \<rparr>))))"

definition predict_persona :: "components \<Rightarrow> PredictRequest \<Rightarrow> http_error + PredictResponse" where
  "predict_persona comps request =
     (case persona_classifier comps of
        None \<Rightarrow> Inl ServiceUnavailable503
      | Some clf \<Rightarrow>
          if \<not> initialized comps \<or> \<not> is_loaded clf then Inl ServiceUnavailable503
          else case predict_persona_steps clf request of
                 Inl e \<Rightarrow> Inl (InternalServerError500 e)
               | Inr response \<Rightarrow> Inr response)"

section \<open>Example inputs\<close>

text \<open>Concrete requests used to run the model.\<close>

definition overcounted_chat_input :: BehaviorData where
  "overcounted_chat_input =
     (BehaviorData_default ''u1'')
       \<lparr> chat := ChatBehavior_default \<lparr> total_messages := 2, user_messages := 5 \<rparr> \<rparr>"

definition zero_attempt_quiz_input :: BehaviorData where
  "zero_attempt_quiz_input =
     (BehaviorData_default ''u2'')
       \<lparr> quiz := Some \<lparr> quiz_attempts = 0, avg_score = 80, completion_rate = 0.9 \<rparr> \<rparr>"

definition declining_input :: BehaviorData where
  "declining_input =
     (BehaviorData_default ''u3'')
       \<lparr> activity := ActivityPattern_default
            \<lparr> active_days := 2, total_sessions := 4, late_night_sessions := 3,
              daily_activity_variance := 6 \<rparr> \<rparr>"

definition increasing_input :: BehaviorData where
  "increasing_input =
     (BehaviorData_default ''u4'')
       \<lparr> activity := ActivityPattern_default
            \<lparr> active_days := 25, total_sessions := 60, daily_activity_variance := 1 \<rparr> \<rparr>"

definition material_input :: "int \<Rightarrow> int \<Rightarrow> int \<Rightarrow> real \<Rightarrow> BehaviorData" where
  "material_input seconds views bookmarks depth =
     (BehaviorData_default ''u5'')
       \<lparr> material := \<lparr> total_time_spent_seconds = seconds, total_views = views,
                        unique_materials_viewed = 0, bookmark_count = bookmarks,
                        avg_scroll_depth = depth \<rparr> \<rparr>"

definition features_all :: "real \<Rightarrow> FeatureVector" where
  "features_all x =
     \<lparr> chat_message_ratio = x, question_frequency = x, avg_message_length_norm = x,
       feedback_ratio = x, feedback_engagement = x, session_count_norm = x,
       messages_per_session = x, session_duration_norm = x, time_spent_norm = x,
       view_count_norm = x, material_diversity = x, avg_time_per_view_norm = x,
       bookmark_ratio = x, scroll_depth = x, material_engagement_score = x,
       active_days_ratio = x, session_frequency = x, consistency_score = x,
       late_night_ratio = x, weekend_ratio = x, peak_hour_norm = x,
       engagement_trend_encoded = x, quiz_score_norm = x, quiz_completion_norm = x,
       quiz_attempt_frequency = x \<rparr>"

definition classified_as :: "LearningPersona \<Rightarrow> real \<Rightarrow> ClassificationResult" where
  "classified_as p c =
     \<lparr> cr_persona = p, cr_confidence = c, cr_probabilities = [persona_value p \<mapsto> c],
       cr_is_low_confidence = (c < 0.5) \<rparr>"

definition flagged_features :: "real \<Rightarrow> real \<Rightarrow> real \<Rightarrow> FeatureVector" where
  "flagged_features late_night frequency trend =
     (features_all 0.5)
       \<lparr> late_night_ratio := late_night, session_frequency := frequency,
         engagement_trend_encoded := trend \<rparr>"

text \<open>
  The value of the local variable \<open>override\<close> of \<open>LogicGuardrails.apply\<close> after the
  three guarded checks, as one expression (used to state lemmas about the result).
\<close>

definition selected_override ::
  "ClassificationResult \<Rightarrow> real option \<Rightarrow> int \<Rightarrow> real \<Rightarrow> GuardrailOverride option" where
  "selected_override prediction quiz_score total_materials_viewed avg_time_per_material =
     (case check_master_override prediction quiz_score of
        Some ov \<Rightarrow> Some ov
      | None \<Rightarrow>
          (case check_deep_diver_override prediction total_materials_viewed of
             Some ov \<Rightarrow> Some ov
           | None \<Rightarrow> check_skimmer_reconsideration prediction avg_time_per_material))"

text \<open>The classifier as \<open>__init__\<close> leaves it when no path is given.\<close>

definition PersonaClassifier_new :: PersonaClassifier where
  "PersonaClassifier_new =
     \<lparr> model = None, scaler = None, model_version = ''0.0.0'',
       last_training_date = ''unknown'', persona_names = [] \<rparr>"

text \<open>The entry that \<open>__init__\<close> stores for each member of the enumeration.\<close>

fun recommendations_of :: "LearningPersona \<Rightarrow> PersonaRecommendations" where
  "recommendations_of STRUGGLER = get_struggler_recommendations"
| "recommendations_of SKIMMER = get_skimmer_recommendations"
| "recommendations_of ANXIOUS = get_anxious_recommendations"
| "recommendations_of BURNOUT = get_burnout_recommendations"
| "recommendations_of MASTER = get_master_recommendations"
| "recommendations_of PROCRASTINATOR = get_procrastinator_recommendations"
| "recommendations_of DEEP_DIVER = get_deep_diver_recommendations"
| "recommendations_of SOCIAL_LEARNER = get_social_learner_recommendations"
| "recommendations_of PERFECTIONIST = get_perfectionist_recommendations"
| "recommendations_of LOST = get_lost_recommendations"

text \<open>
  A stand-in for the external model that always predicts class index 6 (DEEP\_DIVER in
  declaration order) with probability 0.8, and requests that vary the material counts.
\<close>

definition constant_model :: "predicted_class \<Rightarrow> real list \<Rightarrow> sk_model" where
  "constant_model cls probs = \<lparr> sk_predict = (\<lambda>row. cls), sk_predict_proba = (\<lambda>row. probs) \<rparr>"

definition deep_diver_classifier :: PersonaClassifier where
  "deep_diver_classifier =
     PersonaClassifier_new
       \<lparr> model := Some (constant_model (ClassInt 6)
                          [0.02, 0.02, 0.02, 0.02, 0.02, 0.02, 0.8, 0.02, 0.03, 0.03]) \<rparr>"

definition material_request :: "int \<Rightarrow> int \<Rightarrow> int \<Rightarrow> PredictRequest" where
  "material_request seconds views unique_materials =
     \<lparr> req_user_id = ''u6'',
       behavior_data =
         (BehaviorData_default ''u6'')
           \<lparr> material := \<lparr> total_time_spent_seconds = seconds, total_views = views,
                            unique_materials_viewed = unique_materials, bookmark_count = 0,
                            avg_scroll_depth = 0.5 \<rparr> \<rparr>,
       req_quiz_score = None, req_previous_persona = None \<rparr>"

definition loaded_components :: components where
  "loaded_components = \<lparr> initialized = True, persona_classifier = Some deep_diver_classifier \<rparr>"

section \<open>Properties of the feature extractor\<close>

subsection \<open>Ranges of the extracted features\<close>

lemma normalize_unit: "unit_interval (normalize v m)"
  by (simp add: normalize_def unit_interval_def)

lemma clamp_unit: "unit_interval (max 0 (min 1 x))"
  by (simp add: unit_interval_def)

lemma safe_divide_nonneg:
  "0 \<le> n \<Longrightarrow> 0 \<le> m \<Longrightarrow> 0 \<le> dv \<Longrightarrow> 0 \<le> safe_divide n m dv"
  by (simp add: safe_divide_def)

lemma cap_unit: "0 \<le> x \<Longrightarrow> unit_interval (min 1 x)"
  by (simp add: unit_interval_def)

lemma cap_ratio_unit:
  "0 \<le> n \<Longrightarrow> 0 \<le> m \<Longrightarrow> unit_interval (min 1 (safe_divide (real_of_int n) (real_of_int m) 0))"
  by (rule cap_unit) (simp add: safe_divide_def)

lemma feedback_ratio_unit:
  assumes "0 \<le> u" "0 \<le> w"
  shows "unit_interval (safe_divide (real_of_int u) (real_of_int (u + w)) (1/2))"
proof (cases "u + w = 0")
  case True
  then show ?thesis by (simp add: safe_divide_def unit_interval_def)
next
  case False
  with assms have "0 < real_of_int (u + w)" by simp
  moreover have "real_of_int u \<le> real_of_int (u + w)" using assms by simp
  moreover have "0 \<le> real_of_int u" using assms by simp
  ultimately show ?thesis
    using False by (simp add: safe_divide_def unit_interval_def)
qed

lemma chat_message_ratio_unit_iff:
  assumes "0 \<le> u" "0 \<le> t"
  shows "unit_interval (safe_divide (real_of_int u) (real_of_int t) (1/2)) \<longleftrightarrow> t = 0 \<or> u \<le> t"
  using assms by (auto simp add: safe_divide_def unit_interval_def)

lemma chat_features_unit:
  assumes "valid_ChatBehavior (chat d)"
  shows "unit_interval (cf_question_frequency (extract_chat_features d))"
    and "unit_interval (cf_avg_message_length_norm (extract_chat_features d))"
    and "unit_interval (cf_feedback_ratio (extract_chat_features d))"
    and "unit_interval (cf_feedback_engagement (extract_chat_features d))"
    and "unit_interval (cf_session_count_norm (extract_chat_features d))"
    and "unit_interval (cf_messages_per_session (extract_chat_features d))"
    and "unit_interval (cf_session_duration_norm (extract_chat_features d))"
  using assms
  by (simp_all add: extract_chat_features_def Let_def valid_ChatBehavior_def
        normalize_unit cap_ratio_unit feedback_ratio_unit del: of_int_add)

lemma chat_message_ratio_ok_iff:
  assumes "valid_ChatBehavior (chat d)"
  shows "unit_interval (cf_chat_message_ratio (extract_chat_features d)) \<longleftrightarrow>
         total_messages (chat d) = 0 \<or> user_messages (chat d) \<le> total_messages (chat d)"
  using assms
  by (simp add: extract_chat_features_def Let_def valid_ChatBehavior_def
        chat_message_ratio_unit_iff)

lemma material_features_unit:
  assumes "valid_MaterialInteraction (material d)"
  shows "unit_interval (mf_time_spent_norm (extract_material_features d))"
    and "unit_interval (mf_view_count_norm (extract_material_features d))"
    and "unit_interval (mf_material_diversity (extract_material_features d))"
    and "unit_interval (mf_avg_time_per_view_norm (extract_material_features d))"
    and "unit_interval (mf_bookmark_ratio (extract_material_features d))"
    and "unit_interval (mf_scroll_depth (extract_material_features d))"
    and "unit_interval (mf_material_engagement_score (extract_material_features d))"
  using assms
  by (simp_all add: extract_material_features_def Let_def valid_MaterialInteraction_def
        normalize_unit cap_ratio_unit clamp_unit)
     (simp_all add: unit_interval_def)

lemma engagement_trend_encoded_cases:
  "af_engagement_trend_encoded (extract_activity_features d) \<in> {0, 1/2, 1}"
  by (simp add: extract_activity_features_def Let_def)

lemma activity_features_unit:
  assumes "valid_ActivityPattern (activity d)" and "1 \<le> analysis_period_days d"
  shows "unit_interval (af_active_days_ratio (extract_activity_features d))"
    and "unit_interval (af_session_frequency (extract_activity_features d))"
    and "unit_interval (af_consistency_score (extract_activity_features d))"
    and "unit_interval (af_late_night_ratio (extract_activity_features d))"
    and "unit_interval (af_weekend_ratio (extract_activity_features d))"
    and "unit_interval (af_peak_hour_norm (extract_activity_features d))"
    and "unit_interval (af_engagement_trend_encoded (extract_activity_features d))"
  using assms
  by (simp_all add: extract_activity_features_def Let_def valid_ActivityPattern_def
        normalize_unit cap_ratio_unit clamp_unit)
     (simp_all add: unit_interval_def)

lemma quiz_features_unit:
  shows "unit_interval (qf_quiz_score_norm (extract_quiz_features d))"
    and "unit_interval (qf_quiz_completion_norm (extract_quiz_features d))"
    and "unit_interval (qf_quiz_attempt_frequency (extract_quiz_features d))"
  by (simp_all add: extract_quiz_features_def Let_def normalize_unit clamp_unit
        split: option.split)
     (simp_all add: unit_interval_def)

subsection \<open>The trend heuristic\<close>

lemma threaded_scores_k:
  fixes v5 v2 a3 a6 f2 f5 l4 :: bool
  assumes "\<not> (v5 \<and> v2)" "\<not> (a3 \<and> a6)" "\<not> (f2 \<and> f5)"
  shows "(let s0 = (0::nat, 0::nat);
              s1 = (if v5 then (fst s0 + 1, snd s0) else if v2 then (fst s0, snd s0 + 1) else s0);
              s2 = (if a3 then (fst s1 + 1, snd s1) else if a6 then (fst s1, snd s1 + 1) else s1);
              s3 = (if f2 then (fst s2, snd s2 + 1) else if f5 then (fst s2 + 1, snd s2) else s2);
              s4 = (if l4 then (fst s3 + 1, snd s3) else s3);
              declining_score = fst s4;
              increasing_score = snd s4
          in k declining_score increasing_score)
         = k (count_true [v5, a3, f5, l4]) (count_true [v2, a6, f2])"
  using assms by (auto simp add: count_true_def Let_def)

lemma trend_core:
  fixes var sf adr lnr :: real and ts ad :: int
  shows "(let s0 = (0::nat, 0::nat);
              s1 = (if var > 5 then (fst s0 + 1, snd s0)
                    else if var < 2 then (fst s0, snd s0 + 1)
                    else s0);
              s2 = (if adr < 0.3 \<and> ts > 0 then (fst s1 + 1, snd s1)
                    else if adr > 0.6 then (fst s1, snd s1 + 1)
                    else s1);
              s3 = (if sf > 2 then (fst s2, snd s2 + 1)
                    else if sf < 0.5 \<and> ad > 0 then (fst s2 + 1, snd s2)
                    else s2);
              s4 = (if lnr > 0.4 then (fst s3 + 1, snd s3) else s3);
              declining_score = fst s4;
              increasing_score = snd s4
          in if declining_score \<ge> 2 then DECLINING
             else if increasing_score \<ge> 2 then INCREASING
             else STABLE)
         = (if count_true [var > 5, adr < 0.3 \<and> ts > 0, sf < 0.5 \<and> ad > 0, lnr > 0.4] \<ge> 2
              then DECLINING
            else if count_true [var < 2, adr > 0.6, sf > 2] \<ge> 2 then INCREASING
            else STABLE)"
  by (rule threaded_scores_k) auto

lemma calculate_engagement_trend_counts:
  "calculate_engagement_trend d =
     (let a = activity d in
      if total_sessions a = 0 then STABLE
      else
        let session_frequency0 = safe_divide (real_of_int (total_sessions a))
                                   (real_of_int (active_days a)) 0;
            active_days_ratio0 = safe_divide (real_of_int (active_days a))
                                   (real_of_int (analysis_period_days d)) 0;
            late_night_ratio0 = safe_divide (real_of_int (late_night_sessions a))
                                  (real_of_int (total_sessions a)) 0
        in if count_true [daily_activity_variance a > 5,
                          active_days_ratio0 < 0.3 \<and> total_sessions a > 0,
                          session_frequency0 < 0.5 \<and> active_days a > 0,
                          late_night_ratio0 > 0.4] \<ge> 2 then DECLINING
           else if count_true [daily_activity_variance a < 2, active_days_ratio0 > 0.6,
                               session_frequency0 > 2] \<ge> 2 then INCREASING
           else STABLE)"
  by (simp only: calculate_engagement_trend_def trend_core)

lemma encoded_of_trend:
  "af_engagement_trend_encoded (extract_activity_features d) =
     (case calculate_engagement_trend d of DECLINING \<Rightarrow> 0 | STABLE \<Rightarrow> 0.5 | INCREASING \<Rightarrow> 1)"
  by (simp add: extract_activity_features_def Let_def split: EngagementTrend.split)

lemma trend_refines:
  "af_engagement_trend_encoded (extract_activity_features d) = engagement_trend_spec d"
proof (cases "total_sessions (activity d) = 0")
  case True
  then show ?thesis
    by (simp add: encoded_of_trend calculate_engagement_trend_counts engagement_trend_spec_def)
next
  case False
  define adr where "adr = safe_divide (real_of_int (active_days (activity d)))
                            (real_of_int (analysis_period_days d)) 0"
  define lnr where "lnr = safe_divide (real_of_int (late_night_sessions (activity d)))
                            (real_of_int (total_sessions (activity d))) 0"
  have adr_s: "(if analysis_period_days d = 0 then 0
                else min 1 (real_of_int (active_days (activity d)) /
                            real_of_int (analysis_period_days d))) = min 1 adr"
    by (simp add: adr_def safe_divide_def)
  have lnr_s: "(if total_sessions (activity d) = 0 then 0
                else min 1 (real_of_int (late_night_sessions (activity d)) /
                            real_of_int (total_sessions (activity d)))) = min 1 lnr"
    by (simp add: lnr_def safe_divide_def)
  have spd: "(if active_days (activity d) = 0 then 0
              else real_of_int (total_sessions (activity d)) /
                   real_of_int (active_days (activity d)))
             = safe_divide (real_of_int (total_sessions (activity d)))
                 (real_of_int (active_days (activity d))) 0"
    by (simp add: safe_divide_def)
  have caps: "min 1 adr < 0.3 \<longleftrightarrow> adr < 0.3" "0.6 < min 1 adr \<longleftrightarrow> 0.6 < adr"
             "0.4 < min 1 lnr \<longleftrightarrow> 0.4 < lnr"
    by (auto simp add: min_def)
  show ?thesis
    unfolding encoded_of_trend calculate_engagement_trend_counts engagement_trend_spec_def
      Let_def adr_s lnr_s spd caps
    unfolding adr_def [symmetric] lnr_def [symmetric]
    using False by simp
qed

subsection \<open>Success of extraction\<close>



lemmas defaults_defs =
  BehaviorData_default_def ChatBehavior_default_def MaterialInteraction_default_def
  ActivityPattern_default_def

lemmas valid_defs =
  valid_BehaviorData_def valid_ChatBehavior_def valid_MaterialInteraction_def
  valid_ActivityPattern_def valid_QuizPerformance_def

lemmas extractor_defs =
  extract_chat_features_def extract_material_features_def extract_activity_features_def
  extract_quiz_features_def calculate_engagement_trend_counts count_true_def
  safe_divide_def normalize_def
  MAX_MESSAGE_LENGTH_def MAX_SESSIONS_def MAX_SESSION_DURATION_def MAX_TIME_SPENT_def
  MAX_VIEWS_def MAX_SESSIONS_PER_DAY_def MAX_QUIZ_ATTEMPTS_def

lemmas extract_defs =
  FeatureExtractor_extract_def FeatureVector_init_def FeatureVector_fields_ok_def
  unit_interval_def

lemma extract_succeeds_iff:
  assumes "valid_BehaviorData d"
  shows "(\<exists>v. FeatureExtractor_extract d = Inr v) \<longleftrightarrow>
         total_messages (chat d) = 0 \<or> user_messages (chat d) \<le> total_messages (chat d)"
proof -
  from assms have c: "valid_ChatBehavior (chat d)"
    and m: "valid_MaterialInteraction (material d)"
    and a: "valid_ActivityPattern (activity d)"
    and p: "1 \<le> analysis_period_days d"
    by (simp_all add: valid_BehaviorData_def)
  show ?thesis
    by (simp add: FeatureExtractor_extract_def Let_def FeatureVector_init_def
        FeatureVector_fields_ok_def chat_features_unit [OF c] material_features_unit [OF m]
        activity_features_unit [OF a p] quiz_features_unit chat_message_ratio_ok_iff [OF c])
qed

lemma extract_raises_iff:
  assumes "valid_BehaviorData d"
  shows "FeatureExtractor_extract d = Inl ValidationError \<longleftrightarrow>
         total_messages (chat d) \<noteq> 0 \<and> total_messages (chat d) < user_messages (chat d)"
proof -
  have "FeatureExtractor_extract d = Inl ValidationError \<longleftrightarrow>
        \<not> (\<exists>v. FeatureExtractor_extract d = Inr v)"
    by (auto simp add: FeatureExtractor_extract_def Let_def FeatureVector_init_def)
  then show ?thesis
    using extract_succeeds_iff [OF assms] by auto
qed

lemma extract_Inr_chat:
  assumes "FeatureExtractor_extract d = Inr v"
  shows "chat_message_ratio v = cf_chat_message_ratio (extract_chat_features d)"
    and "question_frequency v = cf_question_frequency (extract_chat_features d)"
    and "feedback_ratio v = cf_feedback_ratio (extract_chat_features d)"
    and "messages_per_session v = cf_messages_per_session (extract_chat_features d)"
  using assms
  by (auto simp add: FeatureExtractor_extract_def Let_def FeatureVector_init_def
      split: if_splits)

lemma extract_Inr_material:
  assumes "FeatureExtractor_extract d = Inr v"
  shows "time_spent_norm v = mf_time_spent_norm (extract_material_features d)"
    and "scroll_depth v = mf_scroll_depth (extract_material_features d)"
    and "bookmark_ratio v = mf_bookmark_ratio (extract_material_features d)"
    and "material_engagement_score v = mf_material_engagement_score (extract_material_features d)"
  using assms
  by (auto simp add: FeatureExtractor_extract_def Let_def FeatureVector_init_def
      split: if_splits)

lemma extract_Inr_activity:
  assumes "FeatureExtractor_extract d = Inr v"
  shows "engagement_trend_encoded v = af_engagement_trend_encoded (extract_activity_features d)"
    and "late_night_ratio v = af_late_night_ratio (extract_activity_features d)"
    and "session_frequency v = af_session_frequency (extract_activity_features d)"
  using assms
  by (auto simp add: FeatureExtractor_extract_def Let_def FeatureVector_init_def
      split: if_splits)

lemma extract_Inr_quiz:
  assumes "FeatureExtractor_extract d = Inr v"
  shows "quiz_score_norm v = qf_quiz_score_norm (extract_quiz_features d)"
    and "quiz_completion_norm v = qf_quiz_completion_norm (extract_quiz_features d)"
    and "quiz_attempt_frequency v = qf_quiz_attempt_frequency (extract_quiz_features d)"
  using assms
  by (auto simp add: FeatureExtractor_extract_def Let_def FeatureVector_init_def
      split: if_splits)

lemma extract_Inr_fields_ok:
  "FeatureExtractor_extract d = Inr v \<Longrightarrow> FeatureVector_fields_ok v"
  by (auto simp add: FeatureExtractor_extract_def Let_def FeatureVector_init_def
      split: if_splits)

subsection \<open>Claim C1\<close>

text \<open>
  C1 says that extraction succeeds on every well-typed \<open>BehaviorData\<close> with all 25
  fields in \<open>[0, 1]\<close>, ratios whose sub-count exceeds the total being capped at 1.
  The ratio \<open>user_messages / total_messages\<close> is the one ratio the code does not cap:
  on a well-typed input with 5 user messages among 2 messages it is \<open>5/2\<close>, and the
  validation of the \<open>FeatureVector\<close> constructor raises. By \<open>extract_succeeds_iff\<close>
  this is the only way extraction fails on a well-typed input.
\<close>

theorem C1_uncapped_chat_ratio_raises:
  "valid_BehaviorData overcounted_chat_input \<and>
   cf_chat_message_ratio (extract_chat_features overcounted_chat_input) = 5/2 \<and>
   FeatureExtractor_extract overcounted_chat_input = Inl ValidationError"
proof -
  have v: "valid_BehaviorData overcounted_chat_input"
    by (simp add: overcounted_chat_input_def defaults_defs valid_defs)
  have r: "cf_chat_message_ratio (extract_chat_features overcounted_chat_input) = 5/2"
    by (simp add: overcounted_chat_input_def defaults_defs extract_chat_features_def
        safe_divide_def Let_def)
  have e: "FeatureExtractor_extract overcounted_chat_input = Inl ValidationError"
    unfolding extract_raises_iff [OF v]
    by (simp add: overcounted_chat_input_def defaults_defs)
  from v r e show ?thesis by simp
qed

subsection \<open>Claim C4\<close>

text \<open>
  C4: the missing-data defaults. For an all-zero \<open>ChatBehavior\<close> the chat dictionary
  has \<open>chat_message_ratio = 0.5\<close>, \<open>question_frequency = 0.0\<close>,
  \<open>feedback_ratio = 0.5\<close> and \<open>messages_per_session = 0.0\<close>; without a quiz record
  the quiz dictionary is \<open>0.5, 0.5, 0.0\<close>; with a quiz record of zero attempts the score
  and completion entries are \<open>0.5\<close> whatever \<open>avg_score\<close> and \<open>completion_rate\<close>
  are; and a vector returned by \<open>extract\<close> carries exactly these entries.
\<close>

theorem C4_missing_data_defaults:
  "(chat d = ChatBehavior_default \<longrightarrow>
      cf_chat_message_ratio (extract_chat_features d) = 0.5 \<and>
      cf_question_frequency (extract_chat_features d) = 0.0 \<and>
      cf_feedback_ratio (extract_chat_features d) = 0.5 \<and>
      cf_messages_per_session (extract_chat_features d) = 0.0) \<and>
   (quiz d = None \<longrightarrow>
      qf_quiz_score_norm (extract_quiz_features d) = 0.5 \<and>
      qf_quiz_completion_norm (extract_quiz_features d) = 0.5 \<and>
      qf_quiz_attempt_frequency (extract_quiz_features d) = 0.0) \<and>
   (\<forall>q. quiz d = Some q \<and> quiz_attempts q = 0 \<longrightarrow>
      qf_quiz_score_norm (extract_quiz_features d) = 0.5 \<and>
      qf_quiz_completion_norm (extract_quiz_features d) = 0.5) \<and>
   (\<forall>v. FeatureExtractor_extract d = Inr v \<longrightarrow>
      chat_message_ratio v = cf_chat_message_ratio (extract_chat_features d) \<and>
      question_frequency v = cf_question_frequency (extract_chat_features d) \<and>
      feedback_ratio v = cf_feedback_ratio (extract_chat_features d) \<and>
      messages_per_session v = cf_messages_per_session (extract_chat_features d) \<and>
      quiz_score_norm v = qf_quiz_score_norm (extract_quiz_features d) \<and>
      quiz_completion_norm v = qf_quiz_completion_norm (extract_quiz_features d) \<and>
      quiz_attempt_frequency v = qf_quiz_attempt_frequency (extract_quiz_features d))"
proof (intro conjI impI allI)
  assume z: "chat d = ChatBehavior_default"
  show "cf_chat_message_ratio (extract_chat_features d) = 0.5"
    by (simp add: extract_chat_features_def Let_def z ChatBehavior_default_def safe_divide_def)
  show "cf_question_frequency (extract_chat_features d) = 0.0"
    by (simp add: extract_chat_features_def Let_def z ChatBehavior_default_def safe_divide_def)
  show "cf_feedback_ratio (extract_chat_features d) = 0.5"
    by (simp add: extract_chat_features_def Let_def z ChatBehavior_default_def safe_divide_def)
  show "cf_messages_per_session (extract_chat_features d) = 0.0"
    by (simp add: extract_chat_features_def Let_def z ChatBehavior_default_def safe_divide_def
        normalize_def)
next
  assume n: "quiz d = None"
  show "qf_quiz_score_norm (extract_quiz_features d) = 0.5"
    and "qf_quiz_completion_norm (extract_quiz_features d) = 0.5"
    and "qf_quiz_attempt_frequency (extract_quiz_features d) = 0.0"
    by (simp_all add: extract_quiz_features_def n)
next
  fix q assume s: "quiz d = Some q \<and> quiz_attempts q = 0"
  show "qf_quiz_score_norm (extract_quiz_features d) = 0.5"
    and "qf_quiz_completion_norm (extract_quiz_features d) = 0.5"
    using s by (simp_all add: extract_quiz_features_def Let_def)
next
  fix v assume e: "FeatureExtractor_extract d = Inr v"
  show "chat_message_ratio v = cf_chat_message_ratio (extract_chat_features d)"
    and "question_frequency v = cf_question_frequency (extract_chat_features d)"
    and "feedback_ratio v = cf_feedback_ratio (extract_chat_features d)"
    and "messages_per_session v = cf_messages_per_session (extract_chat_features d)"
    by (rule extract_Inr_chat [OF e])+
  show "quiz_score_norm v = qf_quiz_score_norm (extract_quiz_features d)"
    and "quiz_completion_norm v = qf_quiz_completion_norm (extract_quiz_features d)"
    and "quiz_attempt_frequency v = qf_quiz_attempt_frequency (extract_quiz_features d)"
    by (rule extract_Inr_quiz [OF e])+
qed

lemma default_input_extracts:
  "\<exists>v. FeatureExtractor_extract (BehaviorData_default ''u0'') = Inr v"
  by (subst extract_succeeds_iff) (simp_all add: defaults_defs valid_defs)

lemma zero_attempt_quiz_input_extracts:
  "\<exists>v. FeatureExtractor_extract zero_attempt_quiz_input = Inr v"
  by (subst extract_succeeds_iff)
     (simp_all add: zero_attempt_quiz_input_def defaults_defs valid_defs)

text \<open>
  The theorem at the default input (all-zero chat, no quiz) and at an input whose quiz
  record has zero attempts but \<open>avg_score = 80\<close>: both extract successfully.
\<close>

theorem C4_missing_data_defaults_witness:
  "(\<exists>v. FeatureExtractor_extract (BehaviorData_default ''u0'') = Inr v \<and>
        chat_message_ratio v = 0.5 \<and> question_frequency v = 0.0 \<and>
        feedback_ratio v = 0.5 \<and> messages_per_session v = 0.0 \<and>
        quiz_score_norm v = 0.5 \<and> quiz_completion_norm v = 0.5 \<and>
        quiz_attempt_frequency v = 0.0) \<and>
   (\<exists>v. FeatureExtractor_extract zero_attempt_quiz_input = Inr v \<and>
        quiz_score_norm v = 0.5 \<and> quiz_completion_norm v = 0.5)"
proof -
  obtain v where v: "FeatureExtractor_extract (BehaviorData_default ''u0'') = Inr v"
    using default_input_extracts by blast
  have c: "chat (BehaviorData_default ''u0'') = ChatBehavior_default"
    and n: "quiz (BehaviorData_default ''u0'') = None"
    by (simp_all add: BehaviorData_default_def)
  obtain w where w: "FeatureExtractor_extract zero_attempt_quiz_input = Inr w"
    using zero_attempt_quiz_input_extracts by blast
  have s: "quiz zero_attempt_quiz_input =
             Some \<lparr> quiz_attempts = 0, avg_score = 80, completion_rate = 0.9 \<rparr> \<and>
           quiz_attempts \<lparr> quiz_attempts = 0, avg_score = 80, completion_rate = 0.9 \<rparr> = 0"
    by (simp add: zero_attempt_quiz_input_def BehaviorData_default_def)
  have 1: "\<exists>v. FeatureExtractor_extract (BehaviorData_default ''u0'') = Inr v \<and>
        chat_message_ratio v = 0.5 \<and> question_frequency v = 0.0 \<and>
        feedback_ratio v = 0.5 \<and> messages_per_session v = 0.0 \<and>
        quiz_score_norm v = 0.5 \<and> quiz_completion_norm v = 0.5 \<and>
        quiz_attempt_frequency v = 0.0"
    using C4_missing_data_defaults [of "BehaviorData_default ''u0''"] v c n by auto
  have 2: "\<exists>v. FeatureExtractor_extract zero_attempt_quiz_input = Inr v \<and>
        quiz_score_norm v = 0.5 \<and> quiz_completion_norm v = 0.5"
    using C4_missing_data_defaults [of zero_attempt_quiz_input] w s by auto
  from 1 2 show ?thesis by blast
qed

subsection \<open>Claim C5\<close>

text \<open>
  C5: \<open>engagement_trend_encoded\<close> is the value of the stated heuristic. With no
  sessions it is \<open>0.5\<close>; otherwise the declining score counts variance above 5, an
  active-days ratio below 0.3 with some session, fewer than 0.5 raw sessions per active
  day on some active day, and a late-night ratio above 0.4; the increasing score counts
  variance below 2, an active-days ratio above 0.6 and more than 2 raw sessions per
  active day; a declining score of at least 2 gives \<open>0.0\<close>, else an increasing score
  of at least 2 gives \<open>1.0\<close>, else \<open>0.5\<close>. The value is always one of
  \<open>0.0\<close>, \<open>0.5\<close>, \<open>1.0\<close>, and a vector returned by \<open>extract\<close> carries it.
\<close>

theorem C5_engagement_trend_heuristic:
  "af_engagement_trend_encoded (extract_activity_features d) = engagement_trend_spec d \<and>
   engagement_trend_spec d \<in> {0.0, 0.5, 1.0} \<and>
   (\<forall>v. FeatureExtractor_extract d = Inr v \<longrightarrow>
        engagement_trend_encoded v = engagement_trend_spec d)"
proof (intro conjI allI impI)
  show r: "af_engagement_trend_encoded (extract_activity_features d) = engagement_trend_spec d"
    by (rule trend_refines)
  show "engagement_trend_spec d \<in> {0.0, 0.5, 1.0}"
    using engagement_trend_encoded_cases [of d] unfolding r by simp
  fix v assume "FeatureExtractor_extract d = Inr v"
  then show "engagement_trend_encoded v = engagement_trend_spec d"
    using extract_Inr_activity(1) r by simp
qed

lemma declining_input_extracts: "\<exists>v. FeatureExtractor_extract declining_input = Inr v"
  by (subst extract_succeeds_iff)
     (simp_all add: declining_input_def defaults_defs valid_defs)

lemma increasing_input_extracts: "\<exists>v. FeatureExtractor_extract increasing_input = Inr v"
  by (subst extract_succeeds_iff)
     (simp_all add: increasing_input_def defaults_defs valid_defs)

lemma spec_declining: "engagement_trend_spec declining_input = 0"
  by (simp add: engagement_trend_spec_def declining_input_def defaults_defs count_true_def
      Let_def)

lemma spec_increasing: "engagement_trend_spec increasing_input = 1"
  by (simp add: engagement_trend_spec_def increasing_input_def defaults_defs count_true_def
      Let_def)

lemma spec_default: "engagement_trend_spec (BehaviorData_default ''u0'') = 0.5"
  by (simp add: engagement_trend_spec_def defaults_defs count_true_def Let_def)

text \<open>
  The theorem at a declining, an increasing and the default (no sessions) input; all
  three extract successfully.
\<close>

theorem C5_engagement_trend_heuristic_witness:
  "(\<exists>v. FeatureExtractor_extract declining_input = Inr v \<and> engagement_trend_encoded v = 0.0) \<and>
   (\<exists>v. FeatureExtractor_extract increasing_input = Inr v \<and> engagement_trend_encoded v = 1.0) \<and>
   (\<exists>v. FeatureExtractor_extract (BehaviorData_default ''u0'') = Inr v \<and>
        engagement_trend_encoded v = 0.5)"
  using C5_engagement_trend_heuristic [of declining_input]
        C5_engagement_trend_heuristic [of increasing_input]
        C5_engagement_trend_heuristic [of "BehaviorData_default ''u0''"]
        declining_input_extracts increasing_input_extracts default_input_extracts
        spec_declining spec_increasing spec_default
  by auto

subsection \<open>Claim C8\<close>

lemma weighted_sum_unit:
  fixes a b c :: real
  assumes "unit_interval a" "unit_interval b" "unit_interval c"
  shows "max 0 (min 1 (0.4 * a + 0.4 * b + 0.2 * c)) = 0.4 * a + 0.4 * b + 0.2 * c"
proof -
  from assms have "0 \<le> a" "a \<le> 1" "0 \<le> b" "b \<le> 1" "0 \<le> c" "c \<le> 1"
    by (simp_all add: unit_interval_def)
  then have "0 \<le> 0.4 * a + 0.4 * b + 0.2 * c" and "0.4 * a + 0.4 * b + 0.2 * c \<le> 1"
    by simp_all
  then show ?thesis by simp
qed

lemma material_engagement_score_unfold:
  "mf_material_engagement_score (extract_material_features d) =
     max 0 (min 1 (0.4 * mf_time_spent_norm (extract_material_features d)
                   + 0.4 * mf_scroll_depth (extract_material_features d)
                   + 0.2 * mf_bookmark_ratio (extract_material_features d)))"
  by (simp add: extract_material_features_def Let_def)

text \<open>
  C8: \<open>material_engagement_score\<close> is exactly
  \<open>0.4 * time_spent_norm + 0.4 * scroll_depth + 0.2 * bookmark_ratio\<close>: the final clamp
  to \<open>[0, 1]\<close> never changes the weighted sum. This holds for the material dictionary
  of every well-typed input, and for every vector that \<open>extract\<close> returns.
\<close>

theorem C8_material_engagement_score_exact:
  "(valid_MaterialInteraction (material d) \<longrightarrow>
      mf_material_engagement_score (extract_material_features d) =
        0.4 * mf_time_spent_norm (extract_material_features d)
        + 0.4 * mf_scroll_depth (extract_material_features d)
        + 0.2 * mf_bookmark_ratio (extract_material_features d)) \<and>
   (\<forall>v. FeatureExtractor_extract d = Inr v \<longrightarrow>
      material_engagement_score v =
        0.4 * time_spent_norm v + 0.4 * scroll_depth v + 0.2 * bookmark_ratio v)"
proof (intro conjI allI impI)
  assume m: "valid_MaterialInteraction (material d)"
  show "mf_material_engagement_score (extract_material_features d) =
        0.4 * mf_time_spent_norm (extract_material_features d)
        + 0.4 * mf_scroll_depth (extract_material_features d)
        + 0.2 * mf_bookmark_ratio (extract_material_features d)"
    unfolding material_engagement_score_unfold
    by (rule weighted_sum_unit) (rule material_features_unit [OF m])+
next
  fix v assume e: "FeatureExtractor_extract d = Inr v"
  then have ok: "FeatureVector_fields_ok v" by (rule extract_Inr_fields_ok)
  then have u: "unit_interval (time_spent_norm v)" "unit_interval (scroll_depth v)"
    "unit_interval (bookmark_ratio v)"
    by (simp_all add: FeatureVector_fields_ok_def)
  have "material_engagement_score v =
        max 0 (min 1 (0.4 * time_spent_norm v + 0.4 * scroll_depth v + 0.2 * bookmark_ratio v))"
    unfolding extract_Inr_material [OF e] by (rule material_engagement_score_unfold)
  also have "\<dots> = 0.4 * time_spent_norm v + 0.4 * scroll_depth v + 0.2 * bookmark_ratio v"
    by (rule weighted_sum_unit) (rule u)+
  finally show "material_engagement_score v =
        0.4 * time_spent_norm v + 0.4 * scroll_depth v + 0.2 * bookmark_ratio v" .
qed

lemma material_input_valid:
  "0 \<le> s \<Longrightarrow> 0 \<le> n \<Longrightarrow> 0 \<le> b \<Longrightarrow> 0 \<le> x \<Longrightarrow> x \<le> 1 \<Longrightarrow>
   valid_BehaviorData (material_input s n b x)"
  by (simp add: material_input_def defaults_defs valid_defs)

lemma material_input_extracts:
  "0 \<le> s \<Longrightarrow> 0 \<le> n \<Longrightarrow> 0 \<le> b \<Longrightarrow> 0 \<le> x \<Longrightarrow> x \<le> 1 \<Longrightarrow>
   \<exists>v. FeatureExtractor_extract (material_input s n b x) = Inr v"
  by (subst extract_succeeds_iff [OF material_input_valid])
     (simp_all add: material_input_def defaults_defs)

lemma material_input_material:
  "material (material_input s n b x) =
     \<lparr> total_time_spent_seconds = s, total_views = n, unique_materials_viewed = 0,
       bookmark_count = b, avg_scroll_depth = x \<rparr>"
  by (simp add: material_input_def BehaviorData_default_def)

lemma material_input_features:
  "mf_time_spent_norm (extract_material_features (material_input 36000 1 1 1)) = 1"
  "mf_scroll_depth (extract_material_features (material_input 36000 1 1 1)) = 1"
  "mf_bookmark_ratio (extract_material_features (material_input 36000 1 1 1)) = 1"
  "mf_time_spent_norm (extract_material_features (material_input 0 0 0 0)) = 0"
  "mf_scroll_depth (extract_material_features (material_input 0 0 0 0)) = 0"
  "mf_bookmark_ratio (extract_material_features (material_input 0 0 0 0)) = 0"
  "mf_time_spent_norm (extract_material_features (material_input 18000 2 1 0.5)) = 0.5"
  "mf_scroll_depth (extract_material_features (material_input 18000 2 1 0.5)) = 0.5"
  "mf_bookmark_ratio (extract_material_features (material_input 18000 2 1 0.5)) = 0.5"
  by (simp_all add: extract_material_features_def material_input_material Let_def
      safe_divide_def normalize_def MAX_TIME_SPENT_def)

text \<open>
  The theorem at three inputs whose operands are all \<open>1.0\<close>, all \<open>0.0\<close> and all
  \<open>0.5\<close>: the score is \<open>1.0\<close>, \<open>0.0\<close> and \<open>0.5\<close>.
\<close>

theorem C8_material_engagement_score_exact_witness:
  "(\<exists>v. FeatureExtractor_extract (material_input 36000 1 1 1) = Inr v \<and>
        time_spent_norm v = 1.0 \<and> scroll_depth v = 1.0 \<and> bookmark_ratio v = 1.0 \<and>
        material_engagement_score v = 1.0) \<and>
   (\<exists>v. FeatureExtractor_extract (material_input 0 0 0 0) = Inr v \<and>
        time_spent_norm v = 0.0 \<and> scroll_depth v = 0.0 \<and> bookmark_ratio v = 0.0 \<and>
        material_engagement_score v = 0.0) \<and>
   (\<exists>v. FeatureExtractor_extract (material_input 18000 2 1 0.5) = Inr v \<and>
        time_spent_norm v = 0.5 \<and> scroll_depth v = 0.5 \<and> bookmark_ratio v = 0.5 \<and>
        material_engagement_score v = 0.5)"
proof -
  have a: "\<exists>v. FeatureExtractor_extract (material_input 36000 1 1 1) = Inr v \<and>
        time_spent_norm v = 1.0 \<and> scroll_depth v = 1.0 \<and> bookmark_ratio v = 1.0 \<and>
        material_engagement_score v = 1.0"
  proof -
    obtain v where v: "FeatureExtractor_extract (material_input 36000 1 1 1) = Inr v"
      using material_input_extracts [of 36000 1 1 1] by auto
    show ?thesis
      using C8_material_engagement_score_exact [of "material_input 36000 1 1 1"] v
        extract_Inr_material [OF v] material_input_features
      by (simp only: simp_thms) simp
  qed
  have b: "\<exists>v. FeatureExtractor_extract (material_input 0 0 0 0) = Inr v \<and>
        time_spent_norm v = 0.0 \<and> scroll_depth v = 0.0 \<and> bookmark_ratio v = 0.0 \<and>
        material_engagement_score v = 0.0"
  proof -
    obtain v where v: "FeatureExtractor_extract (material_input 0 0 0 0) = Inr v"
      using material_input_extracts [of 0 0 0 0] by auto
    show ?thesis
      using C8_material_engagement_score_exact [of "material_input 0 0 0 0"] v
        extract_Inr_material [OF v] material_input_features
      by (simp only: simp_thms) simp
  qed
  have c: "\<exists>v. FeatureExtractor_extract (material_input 18000 2 1 0.5) = Inr v \<and>
        time_spent_norm v = 0.5 \<and> scroll_depth v = 0.5 \<and> bookmark_ratio v = 0.5 \<and>
        material_engagement_score v = 0.5"
  proof -
    obtain v where v: "FeatureExtractor_extract (material_input 18000 2 1 0.5) = Inr v"
      using material_input_extracts [of 18000 2 1 "0.5"] by auto
    show ?thesis
      using C8_material_engagement_score_exact [of "material_input 18000 2 1 0.5"] v
        extract_Inr_material [OF v] material_input_features
      by (simp only: simp_thms) simp
  qed
  from a b c show ?thesis by blast
qed

section \<open>Properties of the guardrails\<close>



lemma apply_result:
  assumes "unit_interval (cr_confidence prediction)"
  shows "LogicGuardrails_apply prediction features quiz_score previous_persona tmv atpm =
     Inr \<lparr> gr_persona =
             (case selected_override prediction quiz_score tmv atpm of
                None \<Rightarrow> cr_persona prediction | Some ov \<Rightarrow> final_persona ov),
           gr_confidence = cr_confidence prediction,
           was_overridden = (selected_override prediction quiz_score tmv atpm \<noteq> None),
           gr_override = selected_override prediction quiz_score tmv atpm,
           gr_flags =
             \<lparr> potential_anxious = (check_anxious_flags features \<noteq> []),
               potential_burnout = (check_burnout_flags features previous_persona \<noteq> []),
               needs_attention =
                 (check_anxious_flags features @ check_burnout_flags features previous_persona \<noteq> []
                  \<or> selected_override prediction quiz_score tmv atpm \<noteq> None),
               flag_reasons =
                 check_anxious_flags features @ check_burnout_flags features previous_persona \<rparr> \<rparr>"
  using assms
  by (auto simp add: LogicGuardrails_apply_def GuardrailResult_init_def Let_def
      selected_override_def split: option.splits)

lemma apply_raises:
  "\<not> unit_interval (cr_confidence prediction) \<Longrightarrow>
   LogicGuardrails_apply prediction features quiz_score previous_persona tmv atpm =
     Inl ValidationError"
  by (simp add: LogicGuardrails_apply_def GuardrailResult_init_def Let_def)

lemma selected_override_rules:
  "selected_override prediction quiz_score tmv atpm =
     (if cr_persona prediction = MASTER \<and> quiz_score \<noteq> None \<and> the quiz_score < 50.0
      then Some \<lparr> original_persona = MASTER, final_persona = STRUGGLER,
                  rule_triggered = ''master_low_quiz_score'',
                  reason = QuizScoreBelowThreshold (the quiz_score) 50.0 \<rparr>
      else if cr_persona prediction = DEEP_DIVER \<and> tmv < 3
      then Some \<lparr> original_persona = DEEP_DIVER, final_persona = LOST,
                  rule_triggered = ''deep_diver_low_material_count'',
                  reason = MaterialsBelowMinimum tmv 3 \<rparr>
      else if cr_persona prediction = SKIMMER \<and> atpm > 300.0
      then Some \<lparr> original_persona = SKIMMER, final_persona = DEEP_DIVER,
                  rule_triggered = ''skimmer_high_time_per_material'',
                  reason = TimePerMaterialExceeds atpm 300 \<rparr>
      else None)"
  by (simp add: selected_override_def check_master_override_def
      check_deep_diver_override_def check_skimmer_reconsideration_def
      MASTER_MIN_QUIZ_SCORE_def DEEP_DIVER_MIN_MATERIALS_def
      SKIMMER_MIN_TIME_PER_MATERIAL_def split: option.split)

lemma apply_was_overridden:
  assumes "LogicGuardrails_apply prediction features quiz_score previous_persona tmv atpm = Inr r"
  shows "was_overridden r = (selected_override prediction quiz_score tmv atpm \<noteq> None)"
proof (cases "unit_interval (cr_confidence prediction)")
  case True
  from assms show ?thesis unfolding apply_result [OF True] by auto
next
  case False
  from assms show ?thesis unfolding apply_raises [OF False] by simp
qed

lemma anxious_flags_iff:
  "check_anxious_flags features \<noteq> [] \<longleftrightarrow>
     late_night_ratio features > 0.5 \<and> session_frequency features > 0.3"
  by (simp add: check_anxious_flags_def ANXIOUS_LATE_NIGHT_THRESHOLD_def Let_def)

lemma burnout_flags_iff:
  "check_burnout_flags features previous_persona \<noteq> [] \<longleftrightarrow>
     engagement_trend_encoded features < 0.25 \<and> previous_persona = Some MASTER"
  by (simp add: check_burnout_flags_def Let_def)

subsection \<open>Claim C2\<close>

text \<open>
  C2: the three override rules are tried in the order MASTER with a provided quiz score
  below 50 (to STRUGGLER, rule \<open>master_low_quiz_score\<close>), DEEP\_DIVER with fewer than 3
  materials viewed (to LOST, rule \<open>deep_diver_low_material_count\<close>), SKIMMER with more
  than 300 seconds per material (to DEEP\_DIVER, rule
  \<open>skimmer_high_time_per_material\<close>). The first rule that matches gives the single
  override of the result, every comparison is strict, and the final persona and
  \<open>was_overridden\<close> follow the override.
\<close>

theorem C2_override_rules_in_order:
  assumes "unit_interval (cr_confidence prediction)"
  shows "\<exists>r. LogicGuardrails_apply prediction features quiz_score previous_persona tmv atpm = Inr r \<and>
     gr_override r =
       (if cr_persona prediction = MASTER \<and> quiz_score \<noteq> None \<and> the quiz_score < 50.0
        then Some \<lparr> original_persona = MASTER, final_persona = STRUGGLER,
                    rule_triggered = ''master_low_quiz_score'',
                    reason = QuizScoreBelowThreshold (the quiz_score) 50.0 \<rparr>
        else if cr_persona prediction = DEEP_DIVER \<and> tmv < 3
        then Some \<lparr> original_persona = DEEP_DIVER, final_persona = LOST,
                    rule_triggered = ''deep_diver_low_material_count'',
                    reason = MaterialsBelowMinimum tmv 3 \<rparr>
        else if cr_persona prediction = SKIMMER \<and> atpm > 300.0
        then Some \<lparr> original_persona = SKIMMER, final_persona = DEEP_DIVER,
                    rule_triggered = ''skimmer_high_time_per_material'',
                    reason = TimePerMaterialExceeds atpm 300 \<rparr>
        else None) \<and>
     was_overridden r = (gr_override r \<noteq> None) \<and>
     gr_persona r = (case gr_override r of None \<Rightarrow> cr_persona prediction
                                         | Some ov \<Rightarrow> final_persona ov)"
  unfolding apply_result [OF assms] selected_override_rules [symmetric]
  by simp

text \<open>
  The theorem at firing inputs of each rule and at the boundary values 50, 3 and 300,
  which do not fire; a MASTER prediction without a quiz score is not overridden.
\<close>

theorem C2_override_rules_in_order_witness:
  "(\<exists>r. LogicGuardrails_apply (classified_as MASTER 0.9) (features_all 0.5) (Some 40) None 0 0 = Inr r
      \<and> gr_persona r = STRUGGLER \<and> was_overridden r
      \<and> map_option rule_triggered (gr_override r) = Some ''master_low_quiz_score'') \<and>
   (\<exists>r. LogicGuardrails_apply (classified_as MASTER 0.9) (features_all 0.5) (Some 50) None 0 0 = Inr r
      \<and> gr_persona r = MASTER \<and> \<not> was_overridden r \<and> gr_override r = None) \<and>
   (\<exists>r. LogicGuardrails_apply (classified_as MASTER 0.9) (features_all 0.5) None None 0 0 = Inr r
      \<and> gr_persona r = MASTER \<and> \<not> was_overridden r \<and> gr_override r = None) \<and>
   (\<exists>r. LogicGuardrails_apply (classified_as DEEP_DIVER 0.9) (features_all 0.5) (Some 40) None 2 400 = Inr r
      \<and> gr_persona r = LOST \<and> was_overridden r
      \<and> map_option rule_triggered (gr_override r) = Some ''deep_diver_low_material_count'') \<and>
   (\<exists>r. LogicGuardrails_apply (classified_as DEEP_DIVER 0.9) (features_all 0.5) (Some 40) None 3 400 = Inr r
      \<and> gr_persona r = DEEP_DIVER \<and> \<not> was_overridden r \<and> gr_override r = None) \<and>
   (\<exists>r. LogicGuardrails_apply (classified_as SKIMMER 0.9) (features_all 0.5) (Some 40) None 0 301 = Inr r
      \<and> gr_persona r = DEEP_DIVER \<and> was_overridden r
      \<and> map_option rule_triggered (gr_override r) = Some ''skimmer_high_time_per_material'') \<and>
   (\<exists>r. LogicGuardrails_apply (classified_as SKIMMER 0.9) (features_all 0.5) (Some 40) None 0 300 = Inr r
      \<and> gr_persona r = SKIMMER \<and> \<not> was_overridden r \<and> gr_override r = None)"
proof -
  have u: "unit_interval (cr_confidence (classified_as p 0.9))" for p
    by (simp add: classified_as_def unit_interval_def)
  have p: "cr_persona (classified_as p c) = p" for p c
    by (simp add: classified_as_def)
  have c1: "\<exists>r. LogicGuardrails_apply (classified_as MASTER 0.9) (features_all 0.5) (Some 40) None 0 0 = Inr r
      \<and> gr_persona r = STRUGGLER \<and> was_overridden r
      \<and> map_option rule_triggered (gr_override r) = Some ''master_low_quiz_score''"
    using C2_override_rules_in_order [OF u, of MASTER "features_all 0.5" "Some 40" None 0 0]
    unfolding p by auto
  have c2: "\<exists>r. LogicGuardrails_apply (classified_as MASTER 0.9) (features_all 0.5) (Some 50) None 0 0 = Inr r
      \<and> gr_persona r = MASTER \<and> \<not> was_overridden r \<and> gr_override r = None"
    using C2_override_rules_in_order [OF u, of MASTER "features_all 0.5" "Some 50" None 0 0]
    unfolding p by auto
  have c3: "\<exists>r. LogicGuardrails_apply (classified_as MASTER 0.9) (features_all 0.5) None None 0 0 = Inr r
      \<and> gr_persona r = MASTER \<and> \<not> was_overridden r \<and> gr_override r = None"
    using C2_override_rules_in_order [OF u, of MASTER "features_all 0.5" None None 0 0]
    unfolding p by auto
  have c4: "\<exists>r. LogicGuardrails_apply (classified_as DEEP_DIVER 0.9) (features_all 0.5) (Some 40) None 2 400 = Inr r
      \<and> gr_persona r = LOST \<and> was_overridden r
      \<and> map_option rule_triggered (gr_override r) = Some ''deep_diver_low_material_count''"
    using C2_override_rules_in_order [OF u, of DEEP_DIVER "features_all 0.5" "Some 40" None 2 400]
    unfolding p by auto
  have c5: "\<exists>r. LogicGuardrails_apply (classified_as DEEP_DIVER 0.9) (features_all 0.5) (Some 40) None 3 400 = Inr r
      \<and> gr_persona r = DEEP_DIVER \<and> \<not> was_overridden r \<and> gr_override r = None"
    using C2_override_rules_in_order [OF u, of DEEP_DIVER "features_all 0.5" "Some 40" None 3 400]
    unfolding p by auto
  have c6: "\<exists>r. LogicGuardrails_apply (classified_as SKIMMER 0.9) (features_all 0.5) (Some 40) None 0 301 = Inr r
      \<and> gr_persona r = DEEP_DIVER \<and> was_overridden r
      \<and> map_option rule_triggered (gr_override r) = Some ''skimmer_high_time_per_material''"
    using C2_override_rules_in_order [OF u, of SKIMMER "features_all 0.5" "Some 40" None 0 301]
    unfolding p by auto
  have c7: "\<exists>r. LogicGuardrails_apply (classified_as SKIMMER 0.9) (features_all 0.5) (Some 40) None 0 300 = Inr r
      \<and> gr_persona r = SKIMMER \<and> \<not> was_overridden r \<and> gr_override r = None"
    using C2_override_rules_in_order [OF u, of SKIMMER "features_all 0.5" "Some 40" None 0 300]
    unfolding p by auto
  from c1 c2 c3 c4 c5 c6 c7 show ?thesis by (intro conjI)
qed

subsection \<open>Claim C6\<close>

text \<open>
  C6: \<open>potential_anxious\<close> holds exactly when \<open>late_night_ratio > 0.5\<close> and
  \<open>session_frequency > 0.3\<close>; \<open>potential_burnout\<close> holds exactly when
  \<open>engagement_trend_encoded < 0.25\<close> and the previous persona is MASTER; neither
  depends on the other or on the override; \<open>needs_attention\<close> holds exactly when a
  flag fired or an override occurred.
\<close>

theorem C6_flag_rules:
  assumes "unit_interval (cr_confidence prediction)"
  shows "\<exists>r. LogicGuardrails_apply prediction features quiz_score previous_persona tmv atpm = Inr r \<and>
     potential_anxious (gr_flags r) =
       (late_night_ratio features > 0.5 \<and> session_frequency features > 0.3) \<and>
     potential_burnout (gr_flags r) =
       (engagement_trend_encoded features < 0.25 \<and> previous_persona = Some MASTER) \<and>
     needs_attention (gr_flags r) =
       (potential_anxious (gr_flags r) \<or> potential_burnout (gr_flags r) \<or> was_overridden r)"
  unfolding apply_result [OF assms]
  by (simp add: anxious_flags_iff burnout_flags_iff)

lemma flagged_features_fields:
  "late_night_ratio (flagged_features a b c) = a"
  "session_frequency (flagged_features a b c) = b"
  "engagement_trend_encoded (flagged_features a b c) = c"
  by (simp_all add: flagged_features_def features_all_def)

text \<open>
  Both flags fire together at \<open>late_night_ratio = 0.6\<close>, \<open>session_frequency = 0.5\<close>,
  \<open>engagement_trend_encoded = 0.0\<close> after MASTER; neither fires at the boundary values
  \<open>0.5\<close> and \<open>0.25\<close>, where \<open>needs_attention\<close> is set by an override alone.
\<close>

theorem C6_flag_rules_witness:
  "(\<exists>r. LogicGuardrails_apply (classified_as ANXIOUS 0.9) (flagged_features 0.6 0.5 0.0)
           None (Some MASTER) 0 0 = Inr r
      \<and> potential_anxious (gr_flags r) \<and> potential_burnout (gr_flags r)
      \<and> needs_attention (gr_flags r) \<and> \<not> was_overridden r) \<and>
   (\<exists>r. LogicGuardrails_apply (classified_as ANXIOUS 0.9) (flagged_features 0.5 0.5 0.25)
           None (Some MASTER) 0 0 = Inr r
      \<and> \<not> potential_anxious (gr_flags r) \<and> \<not> potential_burnout (gr_flags r)
      \<and> \<not> needs_attention (gr_flags r) \<and> \<not> was_overridden r) \<and>
   (\<exists>r. LogicGuardrails_apply (classified_as MASTER 0.9) (flagged_features 0.5 0.5 0.25)
           (Some 40) (Some MASTER) 0 0 = Inr r
      \<and> \<not> potential_anxious (gr_flags r) \<and> \<not> potential_burnout (gr_flags r)
      \<and> needs_attention (gr_flags r) \<and> was_overridden r)"
proof -
  have u: "unit_interval (cr_confidence (classified_as p 0.9))" for p
    by (simp add: classified_as_def unit_interval_def)
  have p: "cr_persona (classified_as p c) = p" for p c
    by (simp add: classified_as_def)
  have c1: "\<exists>r. LogicGuardrails_apply (classified_as ANXIOUS 0.9) (flagged_features 0.6 0.5 0.0)
           None (Some MASTER) 0 0 = Inr r
      \<and> potential_anxious (gr_flags r) \<and> potential_burnout (gr_flags r)
      \<and> needs_attention (gr_flags r) \<and> \<not> was_overridden r"
  proof -
    from C6_flag_rules [OF u, of ANXIOUS "flagged_features 0.6 0.5 0.0" None "Some MASTER" 0 0]
    obtain r where r: "LogicGuardrails_apply (classified_as ANXIOUS 0.9) (flagged_features 0.6 0.5 0.0)
           None (Some MASTER) 0 0 = Inr r"
      and a: "potential_anxious (gr_flags r) =
          (late_night_ratio (flagged_features 0.6 0.5 0.0) > 0.5 \<and>
           session_frequency (flagged_features 0.6 0.5 0.0) > 0.3)"
      and b: "potential_burnout (gr_flags r) =
          (engagement_trend_encoded (flagged_features 0.6 0.5 0.0) < 0.25 \<and> Some MASTER = Some MASTER)"
      and n: "needs_attention (gr_flags r) =
          (potential_anxious (gr_flags r) \<or> potential_burnout (gr_flags r) \<or> was_overridden r)"
      by blast
    have w: "was_overridden r = (selected_override (classified_as ANXIOUS 0.9) None 0 0 \<noteq> None)"
      by (rule apply_was_overridden [OF r])
    show ?thesis
      using r a b n w unfolding flagged_features_fields selected_override_rules p
      by auto
  qed
  have c2: "\<exists>r. LogicGuardrails_apply (classified_as ANXIOUS 0.9) (flagged_features 0.5 0.5 0.25)
           None (Some MASTER) 0 0 = Inr r
      \<and> \<not> potential_anxious (gr_flags r) \<and> \<not> potential_burnout (gr_flags r)
      \<and> \<not> needs_attention (gr_flags r) \<and> \<not> was_overridden r"
  proof -
    from C6_flag_rules [OF u, of ANXIOUS "flagged_features 0.5 0.5 0.25" None "Some MASTER" 0 0]
    obtain r where r: "LogicGuardrails_apply (classified_as ANXIOUS 0.9) (flagged_features 0.5 0.5 0.25)
           None (Some MASTER) 0 0 = Inr r"
      and a: "potential_anxious (gr_flags r) =
          (late_night_ratio (flagged_features 0.5 0.5 0.25) > 0.5 \<and>
           session_frequency (flagged_features 0.5 0.5 0.25) > 0.3)"
      and b: "potential_burnout (gr_flags r) =
          (engagement_trend_encoded (flagged_features 0.5 0.5 0.25) < 0.25 \<and> Some MASTER = Some MASTER)"
      and n: "needs_attention (gr_flags r) =
          (potential_anxious (gr_flags r) \<or> potential_burnout (gr_flags r) \<or> was_overridden r)"
      by blast
    have w: "was_overridden r = (selected_override (classified_as ANXIOUS 0.9) None 0 0 \<noteq> None)"
      by (rule apply_was_overridden [OF r])
    show ?thesis
      using r a b n w unfolding flagged_features_fields selected_override_rules p
      by auto
  qed
  have c3: "\<exists>r. LogicGuardrails_apply (classified_as MASTER 0.9) (flagged_features 0.5 0.5 0.25)
           (Some 40) (Some MASTER) 0 0 = Inr r
      \<and> \<not> potential_anxious (gr_flags r) \<and> \<not> potential_burnout (gr_flags r)
      \<and> needs_attention (gr_flags r) \<and> was_overridden r"
  proof -
    from C6_flag_rules [OF u, of MASTER "flagged_features 0.5 0.5 0.25" "Some 40" "Some MASTER" 0 0]
    obtain r where r: "LogicGuardrails_apply (classified_as MASTER 0.9) (flagged_features 0.5 0.5 0.25)
           (Some 40) (Some MASTER) 0 0 = Inr r"
      and a: "potential_anxious (gr_flags r) =
          (late_night_ratio (flagged_features 0.5 0.5 0.25) > 0.5 \<and>
           session_frequency (flagged_features 0.5 0.5 0.25) > 0.3)"
      and b: "potential_burnout (gr_flags r) =
          (engagement_trend_encoded (flagged_features 0.5 0.5 0.25) < 0.25 \<and> Some MASTER = Some MASTER)"
      and n: "needs_attention (gr_flags r) =
          (potential_anxious (gr_flags r) \<or> potential_burnout (gr_flags r) \<or> was_overridden r)"
      by blast
    have w: "was_overridden r = (selected_override (classified_as MASTER 0.9) (Some 40) 0 0 \<noteq> None)"
      by (rule apply_was_overridden [OF r])
    show ?thesis
      using r a b n w unfolding flagged_features_fields selected_override_rules p
      by auto
  qed
  from c1 c2 c3 show ?thesis by (intro conjI)
qed

subsection \<open>Claim C7\<close>

text \<open>
  C7: the confidence of the \<open>GuardrailResult\<close> is the confidence of the input
  \<open>ClassificationResult\<close>, whatever override or flag fired. The guardrails return a
  result for every classification whose confidence is in \<open>[0, 1]\<close>, as the
  \<open>ClassificationResult\<close> model guarantees.
\<close>

theorem C7_confidence_unchanged:
  "(unit_interval (cr_confidence prediction) \<longrightarrow>
      (\<exists>r. LogicGuardrails_apply prediction features quiz_score previous_persona tmv atpm = Inr r)) \<and>
   (\<forall>r. LogicGuardrails_apply prediction features quiz_score previous_persona tmv atpm = Inr r
        \<longrightarrow> gr_confidence r = cr_confidence prediction)"
proof (intro conjI impI allI)
  assume "unit_interval (cr_confidence prediction)"
  then show "\<exists>r. LogicGuardrails_apply prediction features quiz_score previous_persona tmv atpm = Inr r"
    by (simp add: apply_result)
next
  fix r
  assume r: "LogicGuardrails_apply prediction features quiz_score previous_persona tmv atpm = Inr r"
  show "gr_confidence r = cr_confidence prediction"
  proof (cases "unit_interval (cr_confidence prediction)")
    case True
    from r show ?thesis unfolding apply_result [OF True] by auto
  next
    case False
    from r show ?thesis unfolding apply_raises [OF False] by simp
  qed
qed

text \<open>The theorem at a call where an override and both flags fire, and at a quiet call.\<close>

theorem C7_confidence_unchanged_witness:
  "(\<exists>r. LogicGuardrails_apply (classified_as MASTER 0.9) (flagged_features 0.6 0.5 0.0)
          (Some 40) (Some MASTER) 0 0 = Inr r \<and> gr_confidence r = 0.9) \<and>
   (\<exists>r. LogicGuardrails_apply (classified_as LOST 0.3) (features_all 0.5) None None 5 10 = Inr r
        \<and> gr_confidence r = 0.3)"
proof -
  have u: "unit_interval (cr_confidence (classified_as p 0.9))"
          "unit_interval (cr_confidence (classified_as p 0.3))" for p
    by (simp_all add: classified_as_def unit_interval_def)
  have c: "cr_confidence (classified_as p c) = c" for p c
    by (simp add: classified_as_def)
  have c1: "\<exists>r. LogicGuardrails_apply (classified_as MASTER 0.9) (flagged_features 0.6 0.5 0.0)
          (Some 40) (Some MASTER) 0 0 = Inr r \<and> gr_confidence r = 0.9"
    using C7_confidence_unchanged [of "classified_as MASTER 0.9" "flagged_features 0.6 0.5 0.0"
        "Some 40" "Some MASTER" 0 0] u(1) [of MASTER]
    unfolding c by blast
  have c2: "\<exists>r. LogicGuardrails_apply (classified_as LOST 0.3) (features_all 0.5) None None 5 10 = Inr r
        \<and> gr_confidence r = 0.3"
    using C7_confidence_unchanged [of "classified_as LOST 0.3" "features_all 0.5"
        None None 5 10] u(2) [of LOST]
    unfolding c by blast
  from c1 c2 show ?thesis by (intro conjI)
qed

section \<open>Properties of the persona classifier\<close>

subsection \<open>Claim C3\<close>



lemma length_all_personas: "length all_personas = 10"
  by (simp add: all_personas_def)

text \<open>
  C3 says that resolving an integer class index that the supplied \<open>persona_names\<close>
  list does not map raises an error and never yields a persona. With no list loaded,
  index 0 resolves to SKIMMER: the code falls back on the declaration order of the
  enumeration.
\<close>

theorem C3_unmapped_index_resolves_counterexample:
  "persona_names PersonaClassifier_new = [] \<and>
   convert_to_persona PersonaClassifier_new (ClassInt 0) = Inr SKIMMER"
  by (simp add: PersonaClassifier_new_def convert_to_persona_def all_personas_def)

text \<open>
  C3 as amended: when the index is not mapped by \<open>persona_names\<close> (the list is empty,
  or the index is negative or past its end), the resolution is the persona at that
  position of the declaration order for an index from 0 to 9, and raises
  \<open>ValueError\<close> only for an index outside 0 to 9.
\<close>

theorem C3_unmapped_index_falls_back:
  assumes "persona_names clf = [] \<or> idx < 0 \<or> int (length (persona_names clf)) \<le> idx"
  shows "convert_to_persona clf (ClassInt idx) =
           (if 0 \<le> idx \<and> idx < 10 then Inr (all_personas ! nat idx) else Inl ValueError)"
  using assms by (auto simp add: convert_to_persona_def length_all_personas)

text \<open>
  The amended statement with no list loaded at the indices 0, 9, 10 and -1, and with a
  one-entry list at index 1.
\<close>

theorem C3_unmapped_index_falls_back_witness:
  "convert_to_persona PersonaClassifier_new (ClassInt 0) = Inr SKIMMER \<and>
   convert_to_persona PersonaClassifier_new (ClassInt 9) = Inr LOST \<and>
   convert_to_persona PersonaClassifier_new (ClassInt 10) = Inl ValueError \<and>
   convert_to_persona PersonaClassifier_new (ClassInt (- 1)) = Inl ValueError \<and>
   convert_to_persona (PersonaClassifier_new \<lparr> persona_names := [''master''] \<rparr>) (ClassInt 1)
     = Inr STRUGGLER"
proof -
  have e: "persona_names PersonaClassifier_new = []"
    by (simp add: PersonaClassifier_new_def)
  have n: "persona_names (PersonaClassifier_new \<lparr> persona_names := [''master''] \<rparr>) = [''master'']"
    by simp
  have c1: "convert_to_persona PersonaClassifier_new (ClassInt 0) = Inr SKIMMER"
    using C3_unmapped_index_falls_back [of PersonaClassifier_new 0] e
    by (simp add: all_personas_def)
  have c2: "convert_to_persona PersonaClassifier_new (ClassInt 9) = Inr LOST"
    using C3_unmapped_index_falls_back [of PersonaClassifier_new 9] e
    by (simp add: all_personas_def)
  have c3: "convert_to_persona PersonaClassifier_new (ClassInt 10) = Inl ValueError"
    using C3_unmapped_index_falls_back [of PersonaClassifier_new 10] e by simp
  have c4: "convert_to_persona PersonaClassifier_new (ClassInt (- 1)) = Inl ValueError"
    using C3_unmapped_index_falls_back [of PersonaClassifier_new "- 1"] e by simp
  have c5: "convert_to_persona (PersonaClassifier_new \<lparr> persona_names := [''master''] \<rparr>)
              (ClassInt 1) = Inr STRUGGLER"
    using C3_unmapped_index_falls_back
            [of "PersonaClassifier_new \<lparr> persona_names := [''master''] \<rparr>" 1] n
    by (simp add: all_personas_def)
  from c1 c2 c3 c4 c5 show ?thesis by (intro conjI)
qed

section \<open>Properties of the recommendation engine\<close>

subsection \<open>Claim C9\<close>

lemmas recommendation_tables =
  get_struggler_recommendations_def get_skimmer_recommendations_def
  get_anxious_recommendations_def get_burnout_recommendations_def
  get_master_recommendations_def get_procrastinator_recommendations_def
  get_deep_diver_recommendations_def get_social_learner_recommendations_def
  get_perfectionist_recommendations_def get_lost_recommendations_def

lemma get_recommendations_persona:
  "get_recommendations (persona_value p) = Inr (recommendations_of p)"
  by (cases p)
     (simp_all add: get_recommendations_def persona_recommendations_def
        persona_recommendations_items_def)

lemma recommendations_of_shape:
  "pr_persona (recommendations_of p) = p"
  "map priority (recommendations (recommendations_of p)) = [1, 2, 3, 4]"
  "distinct (map rec_id (recommendations (recommendations_of p)))"
  by (cases p; simp add: recommendation_tables)+

lemma get_recommendations_unknown:
  assumes "k \<notin> set (map persona_value all_personas)"
  shows "get_recommendations k = Inl ValueError"
proof -
  have "k \<notin> fst ` set persona_recommendations_items"
    using assms by (simp add: persona_recommendations_items_def all_personas_def)
  then have "persona_recommendations k = None"
    by (simp add: persona_recommendations_def map_of_eq_None_iff)
  then show ?thesis by (simp add: get_recommendations_def)
qed

text \<open>
  C9: the lookup succeeds for each of the ten personas and returns that persona's bundle
  with at least 3 recommendations (there are 4), pairwise distinct ids and priorities
  that start at 1 (they are 1, 2, 3, 4); a key that is none of the ten persona values
  raises \<open>ValueError\<close>, there is no default bundle.
\<close>

theorem C9_recommendation_lookup:
  "(\<forall>p. \<exists>rs. get_recommendations (persona_value p) = Inr rs \<and>
           pr_persona rs = p \<and>
           length (recommendations rs) \<ge> 3 \<and>
           distinct (map rec_id (recommendations rs)) \<and>
           priority (hd (recommendations rs)) = 1 \<and>
           map priority (recommendations rs) = [1, 2, 3, 4]) \<and>
   (\<forall>k. k \<notin> set (map persona_value all_personas) \<longrightarrow> get_recommendations k = Inl ValueError)"
proof (intro conjI allI impI)
  fix p
  have "length (map priority (recommendations (recommendations_of p))) = 4"
    unfolding recommendations_of_shape by simp
  then have l: "length (recommendations (recommendations_of p)) = 4"
    by simp
  then have ne: "recommendations (recommendations_of p) \<noteq> []"
    by auto
  have "hd (map priority (recommendations (recommendations_of p))) = 1"
    unfolding recommendations_of_shape by simp
  then have h: "priority (hd (recommendations (recommendations_of p))) = 1"
    using ne by (simp add: hd_map)
  show "\<exists>rs. get_recommendations (persona_value p) = Inr rs \<and>
           pr_persona rs = p \<and>
           length (recommendations rs) \<ge> 3 \<and>
           distinct (map rec_id (recommendations rs)) \<and>
           priority (hd (recommendations rs)) = 1 \<and>
           map priority (recommendations rs) = [1, 2, 3, 4]"
    using l h recommendations_of_shape [of p]
    by (simp add: get_recommendations_persona)
next
  fix k assume "k \<notin> set (map persona_value all_personas)"
  then show "get_recommendations k = Inl ValueError"
    by (rule get_recommendations_unknown)
qed

text \<open>The theorem at three keys outside the set and at the key of LOST.\<close>

theorem C9_recommendation_lookup_witness:
  "get_recommendations ''unknown'' = Inl ValueError \<and>
   get_recommendations '''' = Inl ValueError \<and>
   get_recommendations ''MASTER'' = Inl ValueError \<and>
   (\<exists>rs. get_recommendations ''lost'' = Inr rs \<and> pr_persona rs = LOST \<and>
         map rec_id (recommendations rs) =
           [''lost_guided_paths'', ''lost_mentor_matching'', ''lost_foundational_materials'',
            ''lost_goal_setting''])"
proof -
  have k: "''unknown'' \<notin> set (map persona_value all_personas)"
          "'''' \<notin> set (map persona_value all_personas)"
          "''MASTER'' \<notin> set (map persona_value all_personas)"
    by (simp_all add: all_personas_def)
  have c1: "get_recommendations ''unknown'' = Inl ValueError"
    using C9_recommendation_lookup k(1) by blast
  have c2: "get_recommendations '''' = Inl ValueError"
    using C9_recommendation_lookup k(2) by blast
  have c3: "get_recommendations ''MASTER'' = Inl ValueError"
    using C9_recommendation_lookup k(3) by blast
  from C9_recommendation_lookup obtain rs where
    rs: "get_recommendations (persona_value LOST) = Inr rs" "pr_persona rs = LOST"
    by blast
  have "get_recommendations ''lost'' = Inr get_lost_recommendations"
    using get_recommendations_persona [of LOST] by simp
  with rs have "rs = get_lost_recommendations" by simp
  then have c4: "\<exists>rs. get_recommendations ''lost'' = Inr rs \<and> pr_persona rs = LOST \<and>
         map rec_id (recommendations rs) =
           [''lost_guided_paths'', ''lost_mentor_matching'', ''lost_foundational_materials'',
            ''lost_goal_setting'']"
    using rs by (simp add: get_lost_recommendations_def)
  from c1 c2 c3 c4 show ?thesis by (intro conjI)
qed

section \<open>Properties of the prediction endpoint\<close>

lemma predict_Inr:
  assumes "predict clf features = Inr c"
  shows "unit_interval (cr_confidence c)" and "is_loaded clf"
  using assms
  by (auto simp add: predict_def Let_def ClassificationResult_init_def is_loaded_def
      split: option.splits if_splits sum.splits)

lemma endpoint_avg_time_per_material_alt:
  assumes "0 \<le> total_views m"
  shows "endpoint_avg_time_per_material m =
           (if total_views m = 0 then 0.0
            else real_of_int (total_time_spent_seconds m) / real_of_int (total_views m))"
  using assms by (auto simp add: endpoint_avg_time_per_material_def)

lemma steps_after_apply:
  assumes e: "FeatureExtractor_extract (behavior_data request) = Inr features"
    and c: "predict clf features = Inr classification"
    and g: "LogicGuardrails_apply classification features (req_quiz_score request)
              (parse_previous_persona (req_previous_persona request))
              (unique_materials_viewed (material (behavior_data request)))
              (endpoint_avg_time_per_material (material (behavior_data request))) = Inr g"
  shows "predict_persona_steps clf request =
     Inr \<lparr> resp_user_id = req_user_id request,
           resp_persona = persona_value (gr_persona g),
           resp_confidence = gr_confidence g,
           resp_is_low_confidence = cr_is_low_confidence classification,
           resp_recommendations = recommendations (recommendations_of (gr_persona g)),
           feature_summary = generate_feature_summary features,
           override_info = gr_override g,
           resp_flags = flag_reasons (gr_flags g) \<rparr>"
proof -
  have u: "unit_interval (cr_confidence classification)"
    by (rule predict_Inr(1) [OF c])
  have "gr_confidence g = cr_confidence classification"
    using g unfolding apply_result [OF u] by auto
  with u have ug: "unit_interval (gr_confidence g)" by simp
  show ?thesis
    by (simp add: predict_persona_steps_def e c g Let_def get_recommendations_persona
        PredictResponse_init_def ug)
qed

subsection \<open>Claim C10\<close>

text \<open>
  C10: the endpoint calls the guardrails with \<open>total_materials_viewed\<close> equal to
  \<open>unique_materials_viewed\<close> of the request's material data and with
  \<open>avg_time_per_material\<close> equal to \<open>total_time_spent_seconds / total_views\<close>, or
  \<open>0.0\<close> when \<open>total_views\<close> is 0; the response is built from that guardrail
  result. Hence for a DEEP\_DIVER classification the response is \<open>lost\<close> exactly when
  fewer than 3 distinct materials were viewed, whatever the raw view count.
\<close>

theorem C10_endpoint_guardrail_inputs:
  assumes "persona_classifier comps = Some clf" and "initialized comps"
    and "valid_BehaviorData (behavior_data request)"
    and "FeatureExtractor_extract (behavior_data request) = Inr features"
    and "predict clf features = Inr classification"
  shows "\<exists>g resp.
     LogicGuardrails_apply classification features (req_quiz_score request)
        (parse_previous_persona (req_previous_persona request))
        (unique_materials_viewed (material (behavior_data request)))
        (if total_views (material (behavior_data request)) = 0 then 0.0
         else real_of_int (total_time_spent_seconds (material (behavior_data request)))
              / real_of_int (total_views (material (behavior_data request)))) = Inr g \<and>
     predict_persona comps request = Inr resp \<and>
     resp_persona resp = persona_value (gr_persona g) \<and>
     override_info resp = gr_override g \<and>
     resp_flags resp = flag_reasons (gr_flags g) \<and>
     resp_confidence resp = gr_confidence g \<and>
     (cr_persona classification = DEEP_DIVER \<longrightarrow>
        resp_persona resp =
          (if unique_materials_viewed (material (behavior_data request)) < 3
           then ''lost'' else ''deep_diver''))"
proof -
  let ?m = "material (behavior_data request)"
  let ?avg = "if total_views ?m = 0 then 0.0
              else real_of_int (total_time_spent_seconds ?m) / real_of_int (total_views ?m)"
  let ?ov = "selected_override classification (req_quiz_score request)
               (unique_materials_viewed ?m) ?avg"
  have tv: "0 \<le> total_views ?m"
    using assms(3) by (simp add: valid_BehaviorData_def valid_MaterialInteraction_def)
  have avg: "endpoint_avg_time_per_material ?m = ?avg"
    by (rule endpoint_avg_time_per_material_alt [OF tv])
  have u: "unit_interval (cr_confidence classification)"
    and l: "is_loaded clf"
    by (rule predict_Inr [OF assms(5)])+
  obtain g where g: "LogicGuardrails_apply classification features (req_quiz_score request)
        (parse_previous_persona (req_previous_persona request))
        (unique_materials_viewed ?m) ?avg = Inr g"
    and gp: "gr_persona g = (case ?ov of None \<Rightarrow> cr_persona classification
                                       | Some ov \<Rightarrow> final_persona ov)"
    unfolding apply_result [OF u] by simp
  have g': "LogicGuardrails_apply classification features (req_quiz_score request)
        (parse_previous_persona (req_previous_persona request))
        (unique_materials_viewed ?m) (endpoint_avg_time_per_material ?m) = Inr g"
    unfolding avg by (rule g)
  define resp where "resp =
     \<lparr> resp_user_id = req_user_id request,
       resp_persona = persona_value (gr_persona g),
       resp_confidence = gr_confidence g,
       resp_is_low_confidence = cr_is_low_confidence classification,
       resp_recommendations = recommendations (recommendations_of (gr_persona g)),
       feature_summary = generate_feature_summary features,
       override_info = gr_override g,
       resp_flags = flag_reasons (gr_flags g) \<rparr>"
  have steps: "predict_persona_steps clf request = Inr resp"
    unfolding resp_def by (rule steps_after_apply [OF assms(4) assms(5) g'])
  have pp: "predict_persona comps request = Inr resp"
    by (simp add: predict_persona_def assms(1) assms(2) l steps)
  have dd: "resp_persona resp =
          (if unique_materials_viewed ?m < 3 then ''lost'' else ''deep_diver'')"
    if "cr_persona classification = DEEP_DIVER"
    using that by (simp add: resp_def gp selected_override_rules)
  have fields: "resp_persona resp = persona_value (gr_persona g)"
    "override_info resp = gr_override g"
    "resp_flags resp = flag_reasons (gr_flags g)"
    "resp_confidence resp = gr_confidence g"
    by (simp_all add: resp_def)
  from g pp fields dd show ?thesis by blast
qed

lemma material_request_valid:
  "0 \<le> s \<Longrightarrow> 0 \<le> n \<Longrightarrow> 0 \<le> k \<Longrightarrow>
   valid_BehaviorData (behavior_data (material_request s n k))"
  by (simp add: material_request_def defaults_defs valid_defs)

lemma material_request_extracts:
  "0 \<le> s \<Longrightarrow> 0 \<le> n \<Longrightarrow> 0 \<le> k \<Longrightarrow>
   \<exists>v. FeatureExtractor_extract (behavior_data (material_request s n k)) = Inr v"
  by (subst extract_succeeds_iff [OF material_request_valid])
     (simp_all add: material_request_def defaults_defs)

lemma material_request_unique:
  "unique_materials_viewed (material (behavior_data (material_request s n k))) = k"
  by (simp add: material_request_def BehaviorData_default_def)

lemma deep_diver_classifier_predicts:
  "\<exists>c. predict deep_diver_classifier features = Inr c \<and> cr_persona c = DEEP_DIVER \<and>
       cr_confidence c = 0.8"
  by (simp add: predict_def deep_diver_classifier_def PersonaClassifier_new_def
      constant_model_def Let_def convert_to_persona_def all_personas_def
      ClassificationResult_init_def unit_interval_def)

text \<open>
  The theorem at a request with 10 views of 2 distinct materials (overridden to
  \<open>lost\<close>) and at one with a single view but 5 distinct materials recorded (kept).
\<close>

theorem C10_endpoint_guardrail_inputs_witness:
  "(\<exists>resp. predict_persona loaded_components (material_request 500 10 2) = Inr resp \<and>
           resp_persona resp = ''lost'') \<and>
   (\<exists>resp. predict_persona loaded_components (material_request 500 1 5) = Inr resp \<and>
           resp_persona resp = ''deep_diver'')"
proof -
  have pc: "persona_classifier loaded_components = Some deep_diver_classifier"
    and ini: "initialized loaded_components"
    by (simp_all add: loaded_components_def)
  have c1: "\<exists>resp. predict_persona loaded_components (material_request 500 10 2) = Inr resp \<and>
           resp_persona resp = ''lost''"
  proof -
    have v: "valid_BehaviorData (behavior_data (material_request 500 10 2))"
      by (rule material_request_valid) simp_all
    obtain f where f: "FeatureExtractor_extract (behavior_data (material_request 500 10 2)) = Inr f"
      using material_request_extracts [of 500 10 2] by auto
    obtain c where c: "predict deep_diver_classifier f = Inr c" "cr_persona c = DEEP_DIVER"
      using deep_diver_classifier_predicts [of f] by blast
    show ?thesis
      using C10_endpoint_guardrail_inputs [OF pc ini v f c(1)] c(2)
      unfolding material_request_unique by auto
  qed
  have c2: "\<exists>resp. predict_persona loaded_components (material_request 500 1 5) = Inr resp \<and>
           resp_persona resp = ''deep_diver''"
  proof -
    have v: "valid_BehaviorData (behavior_data (material_request 500 1 5))"
      by (rule material_request_valid) simp_all
    obtain f where f: "FeatureExtractor_extract (behavior_data (material_request 500 1 5)) = Inr f"
      using material_request_extracts [of 500 1 5] by auto
    obtain c where c: "predict deep_diver_classifier f = Inr c" "cr_persona c = DEEP_DIVER"
      using deep_diver_classifier_predicts [of f] by blast
    show ?thesis
      using C10_endpoint_guardrail_inputs [OF pc ini v f c(1)] c(2)
      unfolding material_request_unique by auto
  qed
  from c1 c2 show ?thesis by (intro conjI)
qed

end
